theory Spec2Isabelle
  imports
    Complex_Main
    "HOL-Library.Finite_Map"
    "HOL-Library.Char_ord"
    "HOL-Library.List_Lexorder"
    "HOL-Library.Sublist"
begin

section \<open>The index generator \<^verbatim>\<open>tools/generate-json.py\<close>\<close>

text \<open>
  The script scans a directory of add-ons, reads the \<^verbatim>\<open>bl_info\<close> declaration of each
  one without running it, checks and augments the declaration, and writes all of them
  as one JSON document, optionally on top of the document of an earlier run.

  The embedding follows the script function by function. What the script gets from
  the interpreter's library is part of the input: a directory is the list of entries
  \<^verbatim>\<open>os.scandir\<close> yields, a source file is what \<^verbatim>\<open>open\<close>, \<^verbatim>\<open>read\<close> and \<^verbatim>\<open>ast.parse\<close> make
  of it, a JSON file is the document \<^verbatim>\<open>json.load\<close> finds in it, and \<^verbatim>\<open>urljoin\<close> is a
  parameter. Exceptions are values of \<open>py_error\<close>, calls of the logger are collected
  in order, and the only file that is written, \<^verbatim>\<open>index.json\<close>, is part of the state
  that \<open>main\<close> returns.
\<close>

subsection \<open>Python values\<close>

text \<open>
  A float: a finite value, an infinity or not-a-number. The script does no arithmetic
  on floats but the sign of a literal; it carries them, compares one with an integer,
  and writes and reads them. Negative zero is not told apart from zero, which Python
  counts equal to it.
\<close>

datatype pyfloat = Finite rat | PosInf | NegInf | NaN

fun float_neg :: "pyfloat \<Rightarrow> pyfloat" where
  "float_neg (Finite r) = Finite (- r)"
| "float_neg PosInf = NegInf"
| "float_neg NegInf = PosInf"
| "float_neg NaN = NaN"

text \<open>
  The values a literal can denote and JSON can hold: \<^verbatim>\<open>None\<close>, \<^verbatim>\<open>Ellipsis\<close>, booleans,
  integers, floats, complex numbers, strings, bytes, tuples, lists, sets and
  dictionaries with string keys. A dictionary is a finite map: Python compares
  dictionaries without regard to insertion order, and the script never depends on that
  order (the writer sorts the keys). Of a complex number only its being one is kept:
  the script can neither write nor compare one. A set is a finite set of values; the
  script only asks whether a string is in one, so elements that Python counts equal
  across types, such as 1 and \<^verbatim>\<open>True\<close>, are kept apart. Dictionaries with keys that are not
  strings are left out, and so are the limits of the interpreter on the depth of a
  value and on memory.
\<close>

datatype pyval =
    PNone
  | PEllipsis
  | PBool bool
  | PInt int
  | PFloat pyfloat
  | PComplex
  | PStr string
  | PBytes string
  | PTuple "pyval list"
  | PList "pyval list"
  | PSet "pyval fset"
  | PDict "(string, pyval) fmap"

type_synonym dict = "(string, pyval) fmap"

datatype py_error =
    OSError
  | ValueError
  | TypeError
  | AttributeError
  | KeyError
  | OverflowError
  | JSONDecodeError

text \<open>\<^verbatim>\<open>dict(pairs)\<close>: of two pairs with the same key the later one stays.\<close>

definition py_dict :: "(string \<times> pyval) list \<Rightarrow> dict" where
  "py_dict kvs = fold (\<lambda>(k, v) m. fmupd k v m) kvs fmempty"

subsection \<open>Logging\<close>

datatype level = DEBUG | INFO | WARNING | FATAL

text \<open>One constructor for each call of the logger in the script, with its arguments.\<close>

datatype log_event =
    Skipping_not_a_package string
  | Parsing string
  | Skipping_UnicodeDecodeError string
  | Skipping_SyntaxError string
  | Unable_to_find_bl_info string
  | Misses_required string "string list"
  | Misses_recommended string "string list"
  | Reading_existing string
  | Wrong_schema_version pyval
  | Writing_addon_index string
  | Done

fun level_of :: "log_event \<Rightarrow> level" where
  "level_of (Skipping_not_a_package _) = INFO"
| "level_of (Parsing _) = DEBUG"
| "level_of (Skipping_UnicodeDecodeError _) = WARNING"
| "level_of (Skipping_SyntaxError _) = WARNING"
| "level_of (Unable_to_find_bl_info _) = WARNING"
| "level_of (Misses_required _ _) = WARNING"
| "level_of (Misses_recommended _ _) = INFO"
| "level_of (Reading_existing _) = INFO"
| "level_of (Wrong_schema_version _) = FATAL"
| "level_of (Writing_addon_index _) = INFO"
| "level_of Done = INFO"

text \<open>What a call leaves behind: the logger calls it made, then its value or the
  exception that ended it.\<close>

type_synonym 'a outcome = "log_event list \<times> (py_error + 'a)"

definition REQUIRED_KEYS :: "string list" where
  "REQUIRED_KEYS = [''name'', ''blender'']"

definition RECOMMENDED_KEYS :: "string list" where
  "RECOMMENDED_KEYS = [''author'', ''description'', ''location'', ''wiki_url'', ''category'']"

definition CURRENT_SCHEMA_VERSION :: int where
  "CURRENT_SCHEMA_VERSION = 1"

subsection \<open>The file system\<close>

text \<open>
  A parsed source file, as far as \<open>parse_blinfo\<close> looks at it: the top-level
  statements, of an assignment its targets and its right-hand side. An expression is a
  constant, a tuple, list, set or dictionary display, a unary or binary operation, a
  name, a call with its positional and keyword arguments, or an expression of another
  kind. Dictionary displays have string literals as keys. A complex constant is an
  imaginary literal such as \<^verbatim>\<open>2j\<close>.
\<close>

datatype literal_constant =
    CNone
  | CEllipsis
  | CBool bool
  | CInt int
  | CFloat pyfloat
  | CComplex
  | CStr string
  | CBytes string

datatype unaryop = UAdd | USub | UNot | UInvert

datatype operator = Add | Sub | Other_operator

datatype expr =
    EConstant literal_constant
  | ETuple "expr list"
  | EList "expr list"
  | ESet "expr list"
  | EDict "(string \<times> expr) list"
  | EUnaryOp unaryop expr
  | EBinOp expr operator expr
  | EName string
  | ECall expr "expr list" "(string \<times> expr) list"
  | EOther

datatype target = Name string | Other_target

datatype stmt = Assign "target list" expr | Other_stmt

text \<open>
  What opening, reading and parsing a file as Python source gives: \<open>Unreadable\<close> when
  \<^verbatim>\<open>open\<close> raises, \<open>Undecodable\<close> when \<^verbatim>\<open>read\<close> raises \<^verbatim>\<open>UnicodeDecodeError\<close>,
  \<open>Syntax_error\<close> when \<^verbatim>\<open>ast.parse\<close> raises \<^verbatim>\<open>SyntaxError\<close>, the module body otherwise.
\<close>

datatype source_file = Unreadable | Undecodable | Syntax_error | Module "stmt list"

text \<open>
  A JSON document: a number written without fraction and exponent is a \<open>JInt\<close>, any
  other number, and the tokens \<^verbatim>\<open>NaN\<close> and \<^verbatim>\<open>Infinity\<close> that Python writes and reads, a
  \<open>JFloat\<close>; the members of an object are in the order of the text.
\<close>

datatype json =
    JNull
  | JBool bool
  | JInt int
  | JFloat pyfloat
  | JString string
  | JArray "json list"
  | JObject "(string \<times> json) list"

text \<open>A file read as JSON: a document, or text that is no JSON document.\<close>

datatype json_file = Not_json | Json_text json

datatype dir_entry = DirEntry (name: string) (is_dir: bool)

text \<open>
  \<open>scandir\<close> lists a directory in the order \<^verbatim>\<open>os.scandir\<close> yields its entries,
  \<open>py_files\<close> is each path read as Python source and \<open>json_files\<close> each path read as
  JSON, \<open>None\<close> where no file is. The script reads source files only before it writes
  its one JSON file, so the two views are kept apart. The directory that is scanned is
  taken to be another one than the working directory, where \<^verbatim>\<open>index.json\<close> is written:
  the written file does not show up in \<open>scandir\<close> or \<open>py_files\<close>.
\<close>

record filesystem =
  scandir :: "string \<Rightarrow> py_error + dir_entry list"
  py_files :: "string \<Rightarrow> source_file option"
  json_files :: "string \<Rightarrow> json_file option"

subsection \<open>Paths\<close>

text \<open>\<^verbatim>\<open>str.rfind\<close> of one character: the last index, or -1.\<close>

fun rfind :: "char \<Rightarrow> string \<Rightarrow> int" where
  "rfind c [] = - 1"
| "rfind c (x # xs) =
     (let r = rfind c xs in if 0 \<le> r then r + 1 else if x = c then 0 else - 1)"

text \<open>
  \<^verbatim>\<open>os.path.splitext\<close>: the extension starts at the last dot after the last separator,
  unless only dots stand between the separator and that dot.
\<close>

definition splitext :: "string \<Rightarrow> string \<times> string" where
  "splitext p =
     (let sepIndex = rfind CHR ''/'' p;
          dotIndex = rfind CHR ''.'' p
      in if sepIndex < dotIndex \<and>
            list_ex (\<lambda>c. c \<noteq> CHR ''.'') (drop (nat (sepIndex + 1)) (take (nat dotIndex) p))
         then (take (nat dotIndex) p, drop (nat dotIndex) p)
         else (p, ''''))"

text \<open>\<^verbatim>\<open>os.path.join\<close> of two components.\<close>

definition path_join :: "string \<Rightarrow> string \<Rightarrow> string" where
  "path_join a b =
     (if take 1 b = ''/'' then b
      else if a = '''' \<or> last a = CHR ''/'' then a @ b
      else a @ ''/'' @ b)"

definition startswith :: "string \<Rightarrow> string \<Rightarrow> bool" where
  "startswith s p = (take (length p) s = p)"

subsection \<open>\<^verbatim>\<open>iter_addons\<close>\<close>

text \<open>
  The generator, as the steps it takes when it is run to its end: a logger call, a
  yielded triple, or an exception. The consumer takes them one at a time, so what the
  generator logs is interleaved with what the consumer does with each triple.
\<close>

datatype gen_step = Log log_event | Yield string string string | Raise py_error

fun iter_items :: "filesystem \<Rightarrow> string \<Rightarrow> dir_entry list \<Rightarrow> gen_step list" where
  "iter_items fs addons_dir [] = []"
| "iter_items fs addons_dir (item # rest) =
     (if startswith (name item) ''.'' then iter_items fs addons_dir rest
      else
        let path = path_join addons_dir (name item);
            (base, ext) = splitext (name item)
        in if is_dir item then
             let fname = path_join path ''__init__.py''
             in if py_files fs fname = None
                then Log (Skipping_not_a_package path) # iter_items fs addons_dir rest
                else Yield base fname ''.zip'' # iter_items fs addons_dir rest
           else Yield base path ''.py'' # iter_items fs addons_dir rest)"

definition iter_addons :: "filesystem \<Rightarrow> string \<Rightarrow> gen_step list" where
  "iter_addons fs addons_dir =
     (case scandir fs addons_dir of
        Inl e \<Rightarrow> [Raise e]
      | Inr items \<Rightarrow> iter_items fs addons_dir items)"

subsection \<open>\<^verbatim>\<open>parse_blinfo\<close>\<close>

text \<open>
  \<^verbatim>\<open>ast.literal_eval\<close> on a node, as Python 3.9 and later have it. A constant has its
  value; a tuple, list, set or dictionary display has the value of its parts, where the
  elements of a set must be hashable; \<^verbatim>\<open>set()\<close> is the empty set; a sign is allowed in
  front of a number, and a real number plus or minus an imaginary constant is a complex
  number. Every other node is malformed, which is a \<^verbatim>\<open>ValueError\<close>.
\<close>

fun constant_value :: "literal_constant \<Rightarrow> pyval" where
  "constant_value CNone = PNone"
| "constant_value CEllipsis = PEllipsis"
| "constant_value (CBool b) = PBool b"
| "constant_value (CInt i) = PInt i"
| "constant_value (CFloat x) = PFloat x"
| "constant_value CComplex = PComplex"
| "constant_value (CStr s) = PStr s"
| "constant_value (CBytes b) = PBytes b"

text \<open>\<^verbatim>\<open>_convert_num\<close>: the node must be a constant of type int, float or complex.\<close>

fun convert_num :: "expr \<Rightarrow> py_error + pyval" where
  "convert_num (EConstant (CInt i)) = Inr (PInt i)"
| "convert_num (EConstant (CFloat x)) = Inr (PFloat x)"
| "convert_num (EConstant CComplex) = Inr PComplex"
| "convert_num _ = Inl ValueError"

text \<open>The negative of a number.\<close>

fun py_neg :: "pyval \<Rightarrow> pyval" where
  "py_neg (PInt i) = PInt (- i)"
| "py_neg (PFloat x) = PFloat (float_neg x)"
| "py_neg v = v"

text \<open>\<^verbatim>\<open>_convert_signed_num\<close>\<close>

fun convert_signed_num :: "expr \<Rightarrow> py_error + pyval" where
  "convert_signed_num (EUnaryOp UAdd operand) = convert_num operand"
| "convert_signed_num (EUnaryOp USub operand) =
     (case convert_num operand of Inl e \<Rightarrow> Inl e | Inr v \<Rightarrow> Inr (py_neg v))"
| "convert_signed_num node = convert_num node"

text \<open>
  An integer is turned into a float before it is added to a complex number; one that
  rounds to \<open>2 ^ 1024\<close> or more has no float, which is an \<^verbatim>\<open>OverflowError\<close>.
\<close>

definition float_overflows :: "int \<Rightarrow> bool" where
  "float_overflows i = (2 ^ 1024 - 2 ^ 970 \<le> \<bar>i\<bar>)"

text \<open>\<^verbatim>\<open>left + right\<close> and \<^verbatim>\<open>left - right\<close> for a complex \<open>right\<close>, where \<open>left\<close> must be
  an int or a float.\<close>

fun real_with_complex :: "pyval \<Rightarrow> py_error + pyval" where
  "real_with_complex (PInt i) = (if float_overflows i then Inl OverflowError else Inr PComplex)"
| "real_with_complex (PFloat x) = Inr PComplex"
| "real_with_complex _ = Inl ValueError"

text \<open>Whether a value can be an element of a set.\<close>

primrec hashable :: "pyval \<Rightarrow> bool" where
  "hashable PNone = True"
| "hashable PEllipsis = True"
| "hashable (PBool b) = True"
| "hashable (PInt i) = True"
| "hashable (PFloat x) = True"
| "hashable PComplex = True"
| "hashable (PStr s) = True"
| "hashable (PBytes b) = True"
| "hashable (PTuple xs) = list_all (\<lambda>h. h) (map hashable xs)"
| "hashable (PList xs) = False"
| "hashable (PSet s) = False"
| "hashable (PDict m) = False"

fun literal_eval :: "expr \<Rightarrow> py_error + pyval"
  and literal_eval_list :: "expr list \<Rightarrow> py_error + pyval list"
  and literal_eval_set :: "expr list \<Rightarrow> py_error + pyval fset"
  and literal_eval_items :: "(string \<times> expr) list \<Rightarrow> py_error + (string \<times> pyval) list"
where
  "literal_eval (EConstant c) = Inr (constant_value c)"
| "literal_eval (ETuple elts) =
     (case literal_eval_list elts of Inl e \<Rightarrow> Inl e | Inr vs \<Rightarrow> Inr (PTuple vs))"
| "literal_eval (EList elts) =
     (case literal_eval_list elts of Inl e \<Rightarrow> Inl e | Inr vs \<Rightarrow> Inr (PList vs))"
| "literal_eval (ESet elts) =
     (case literal_eval_set elts of Inl e \<Rightarrow> Inl e | Inr vs \<Rightarrow> Inr (PSet vs))"
| "literal_eval (ECall func args keywords) =
     (if func = EName ''set'' \<and> args = [] \<and> keywords = [] then Inr (PSet {||})
      else Inl ValueError)"
| "literal_eval (EDict items) =
     (case literal_eval_items items of Inl e \<Rightarrow> Inl e | Inr kvs \<Rightarrow> Inr (PDict (py_dict kvs)))"
| "literal_eval (EBinOp left op right) =
     (if op = Add \<or> op = Sub then
        (case convert_signed_num left of
           Inl e \<Rightarrow> Inl e
         | Inr l \<Rightarrow>
             (case convert_num right of
                Inl e \<Rightarrow> Inl e
              | Inr r \<Rightarrow> if r = PComplex then real_with_complex l else Inl ValueError))
      else Inl ValueError)"
| "literal_eval (EUnaryOp op operand) = convert_signed_num (EUnaryOp op operand)"
| "literal_eval (EName ident) = Inl ValueError"
| "literal_eval EOther = Inl ValueError"
| "literal_eval_list [] = Inr []"
| "literal_eval_list (x # xs) =
     (case literal_eval x of
        Inl e \<Rightarrow> Inl e
      | Inr v \<Rightarrow> (case literal_eval_list xs of Inl e \<Rightarrow> Inl e | Inr vs \<Rightarrow> Inr (v # vs)))"
| "literal_eval_set [] = Inr {||}"
| "literal_eval_set (x # xs) =
     (case literal_eval x of
        Inl e \<Rightarrow> Inl e
      | Inr v \<Rightarrow>
          if \<not> hashable v then Inl TypeError
          else (case literal_eval_set xs of Inl e \<Rightarrow> Inl e | Inr vs \<Rightarrow> Inr (finsert v vs)))"
| "literal_eval_items [] = Inr []"
| "literal_eval_items ((k, x) # xs) =
     (case literal_eval x of
        Inl e \<Rightarrow> Inl e
      | Inr v \<Rightarrow> (case literal_eval_items xs of Inl e \<Rightarrow> Inl e | Inr kvs \<Rightarrow> Inr ((k, v) # kvs)))"

text \<open>\<^verbatim>\<open>getattr(target, 'id', '')\<close>: only a name has an \<^verbatim>\<open>id\<close>.\<close>

fun target_id :: "target \<Rightarrow> string" where
  "target_id (Name ident) = ident"
| "target_id Other_target = []"

text \<open>The loop over \<^verbatim>\<open>tree.body\<close> and the two lines after it.\<close>

fun find_bl_info :: "string \<Rightarrow> stmt list \<Rightarrow> pyval outcome" where
  "find_bl_info addon_fname [] = ([Unable_to_find_bl_info addon_fname], Inr PNone)"
| "find_bl_info addon_fname (Other_stmt # rest) = find_bl_info addon_fname rest"
| "find_bl_info addon_fname (Assign targets val # rest) =
     (if length targets \<noteq> 1 then find_bl_info addon_fname rest
      else if target_id (hd targets) \<noteq> ''bl_info'' then find_bl_info addon_fname rest
      else ([], literal_eval val))"

text \<open>The value \<open>PNone\<close> is Python's \<^verbatim>\<open>None\<close>, the function's "no bl_info".\<close>

definition parse_blinfo :: "filesystem \<Rightarrow> string \<Rightarrow> pyval outcome" where
  "parse_blinfo fs addon_fname =
     (case py_files fs addon_fname of
        None \<Rightarrow> ([Parsing addon_fname], Inl OSError)
      | Some Unreadable \<Rightarrow> ([Parsing addon_fname], Inl OSError)
      | Some Undecodable \<Rightarrow>
          ([Parsing addon_fname, Skipping_UnicodeDecodeError addon_fname], Inr PNone)
      | Some Syntax_error \<Rightarrow>
          ([Parsing addon_fname, Skipping_SyntaxError addon_fname], Inr PNone)
      | Some (Module body) \<Rightarrow>
          (case find_bl_info addon_fname body of (lg, r) \<Rightarrow> (Parsing addon_fname # lg, r)))"

subsection \<open>\<^verbatim>\<open>blinfo_to_json\<close>\<close>

text \<open>
  \<^verbatim>\<open>key in obj\<close> for a string \<open>key\<close>: membership in a dictionary's keys, in a sequence
  or in a set, substring of a string, and a \<^verbatim>\<open>TypeError\<close> for the other values.
\<close>

fun py_contains :: "string \<Rightarrow> pyval \<Rightarrow> py_error + bool" where
  "py_contains key (PDict m) = Inr (key |\<in>| fmdom m)"
| "py_contains key (PList xs) = Inr (PStr key \<in> set xs)"
| "py_contains key (PTuple xs) = Inr (PStr key \<in> set xs)"
| "py_contains key (PSet s) = Inr (PStr key |\<in>| s)"
| "py_contains key (PStr s) = Inr (sublist key s)"
| "py_contains key (PBytes b) = Inl TypeError"
| "py_contains key PNone = Inl TypeError"
| "py_contains key PEllipsis = Inl TypeError"
| "py_contains key (PBool b) = Inl TypeError"
| "py_contains key (PInt i) = Inl TypeError"
| "py_contains key (PFloat x) = Inl TypeError"
| "py_contains key PComplex = Inl TypeError"

text \<open>\<^verbatim>\<open>[key for key in keys if key not in obj]\<close>\<close>

fun missing_keys :: "string list \<Rightarrow> pyval \<Rightarrow> py_error + string list" where
  "missing_keys [] obj = Inr []"
| "missing_keys (key # keys) obj =
     (case py_contains key obj of
        Inl e \<Rightarrow> Inl e
      | Inr present \<Rightarrow>
          (case missing_keys keys obj of
             Inl e \<Rightarrow> Inl e
           | Inr ms \<Rightarrow> Inr (if present then ms else key # ms)))"

text \<open>
  The function copies its argument and changes the copy, so it is modelled on a store
  of objects: a list of values, an object's address its index. \<^verbatim>\<open>obj.copy()\<close> makes a
  new object (dictionaries, lists and sets have the method), \<^verbatim>\<open>obj.update(other)\<close>
  changes the object at its address (dictionaries and sets have the method).
\<close>

type_synonym store = "pyval list"

definition py_copy :: "store \<Rightarrow> nat \<Rightarrow> py_error + store \<times> nat" where
  "py_copy h a =
     (case h ! a of
        PDict m \<Rightarrow> Inr (h @ [PDict m], length h)
      | PList xs \<Rightarrow> Inr (h @ [PList xs], length h)
      | PSet s \<Rightarrow> Inr (h @ [PSet s], length h)
      | _ \<Rightarrow> Inl AttributeError)"

text \<open>
  \<^verbatim>\<open>obj.update(other)\<close> on the value of \<open>obj\<close> for a dictionary \<open>other\<close>: in a
  dictionary every key of \<open>other\<close> is set, to a set the keys of \<open>other\<close> are added.
\<close>

definition dict_update :: "pyval \<Rightarrow> dict \<Rightarrow> py_error + pyval" where
  "dict_update obj other =
     (case obj of
        PDict m \<Rightarrow> Inr (PDict (m ++\<^sub>f other))
      | PSet s \<Rightarrow> Inr (PSet (s |\<union>| PStr |`| fmdom other))
      | _ \<Rightarrow> Inl AttributeError)"

definition py_update :: "store \<Rightarrow> nat \<Rightarrow> dict \<Rightarrow> py_error + store" where
  "py_update h a other =
     (case dict_update (h ! a) other of
        Inl e \<Rightarrow> Inl e
      | Inr v \<Rightarrow> Inr (h[a := v]))"

text \<open>The result is the store after the call, the log, and the address of the
  augmented copy, or \<open>None\<close>.\<close>

definition blinfo_to_json ::
  "store \<Rightarrow> nat \<Rightarrow> string \<Rightarrow> string \<Rightarrow> string \<Rightarrow> store \<times> nat option outcome" where
  "blinfo_to_json h bl_info addon_id source url =
     (case missing_keys REQUIRED_KEYS (h ! bl_info) of
        Inl e \<Rightarrow> (h, [], Inl e)
      | Inr missing_req_keys \<Rightarrow>
          if missing_req_keys \<noteq> [] then
            (h, [Misses_required addon_id missing_req_keys], Inr None)
          else
            (case missing_keys RECOMMENDED_KEYS (h ! bl_info) of
               Inl e \<Rightarrow> (h, [], Inl e)
             | Inr missing_rec_keys \<Rightarrow>
                 let lg = (if missing_rec_keys \<noteq> []
                           then [Misses_recommended addon_id missing_rec_keys] else [])
                 in (case py_copy h bl_info of
                       Inl e \<Rightarrow> (h, lg, Inl e)
                     | Inr (h1, json_data) \<Rightarrow>
                         (case py_update h1 json_data
                                 (py_dict [(''download_url'', PStr url),
                                           (''source'', PStr source)]) of
                            Inl e \<Rightarrow> (h1, lg, Inl e)
                          | Inr h2 \<Rightarrow> (h2, lg, Inr (Some json_data))))))"

subsection \<open>\<^verbatim>\<open>parse_addons\<close>\<close>

text \<open>
  The loop body hands \<open>blinfo_to_json\<close> the object \<open>parse_blinfo\<close> returned, the only
  object in the store, and reads the augmented copy from the store afterwards.
\<close>

definition augment :: "pyval \<Rightarrow> string \<Rightarrow> string \<Rightarrow> string \<Rightarrow> pyval option outcome" where
  "augment bl_info addon_id source url =
     (case blinfo_to_json [bl_info] 0 addon_id source url of
        (h, lg, Inl e) \<Rightarrow> (lg, Inl e)
      | (h, lg, Inr None) \<Rightarrow> (lg, Inr None)
      | (h, lg, Inr (Some a)) \<Rightarrow> (lg, Inr (Some (h ! a))))"

text \<open>
  The loop over the generator's steps with \<open>json_data\<close> as its state.
  \<open>urljoin\<close> stands for \<^verbatim>\<open>urllib.parse.urljoin\<close>.
\<close>

fun parse_addons_loop ::
  "(string \<Rightarrow> string \<Rightarrow> string) \<Rightarrow> filesystem \<Rightarrow> string \<Rightarrow> string \<Rightarrow>
   gen_step list \<Rightarrow> dict \<Rightarrow> dict outcome" where
  "parse_addons_loop urljoin fs addons_source addons_base_url [] json_data =
     ([], Inr json_data)"
| "parse_addons_loop urljoin fs addons_source addons_base_url (Raise e # rest) json_data =
     ([], Inl e)"
| "parse_addons_loop urljoin fs addons_source addons_base_url (Log ev # rest) json_data =
     (case parse_addons_loop urljoin fs addons_source addons_base_url rest json_data of
        (lg, r) \<Rightarrow> (ev # lg, r))"
| "parse_addons_loop urljoin fs addons_source addons_base_url
       (Yield addon_id addon_fname addon_ext # rest) json_data =
     (case parse_blinfo fs addon_fname of
        (lg1, Inl e) \<Rightarrow> (lg1, Inl e)
      | (lg1, Inr bl_info) \<Rightarrow>
          if bl_info = PNone then
            (case parse_addons_loop urljoin fs addons_source addons_base_url rest json_data of
               (lg, r) \<Rightarrow> (lg1 @ lg, r))
          else
            let url = urljoin addons_base_url (addon_id @ addon_ext)
            in (case augment bl_info addon_id addons_source url of
                  (lg2, Inl e) \<Rightarrow> (lg1 @ lg2, Inl e)
                | (lg2, Inr None) \<Rightarrow>
                    (case parse_addons_loop urljoin fs addons_source addons_base_url
                            rest json_data of
                       (lg, r) \<Rightarrow> (lg1 @ lg2 @ lg, r))
                | (lg2, Inr (Some as_json)) \<Rightarrow>
                    (case parse_addons_loop urljoin fs addons_source addons_base_url
                            rest (fmupd addon_id as_json json_data) of
                       (lg, r) \<Rightarrow> (lg1 @ lg2 @ lg, r))))"

definition parse_addons ::
  "(string \<Rightarrow> string \<Rightarrow> string) \<Rightarrow> filesystem \<Rightarrow> string \<Rightarrow> string \<Rightarrow> string \<Rightarrow> dict outcome" where
  "parse_addons urljoin fs addons_dir addons_source addons_base_url =
     parse_addons_loop urljoin fs addons_source addons_base_url
       (iter_addons fs addons_dir) fmempty"

subsection \<open>Reading and writing the index\<close>

text \<open>
  Python turns an integer into decimal text, and decimal text into an integer, only up
  to a number of digits, 4300 unless the interpreter is told otherwise; beyond it the
  conversion is a \<^verbatim>\<open>ValueError\<close>.
\<close>

function decimal_digits :: "int \<Rightarrow> int" where
  "decimal_digits n = (if n < 10 then 1 else 1 + decimal_digits (n div 10))"
  by pat_completeness auto
termination
  by (relation "measure nat") auto

declare decimal_digits.simps [simp del]

definition int_max_str_digits :: int where
  "int_max_str_digits = 4300"

definition int_has_text :: "int \<Rightarrow> bool" where
  "int_has_text i = (decimal_digits \<bar>i\<bar> \<le> int_max_str_digits)"

text \<open>The results of a sequence of steps that ends at the first exception.\<close>

fun collect :: "(py_error + 'a) list \<Rightarrow> py_error + 'a list" where
  "collect [] = Inr []"
| "collect (Inl e # rs) = Inl e"
| "collect (Inr x # rs) = (case collect rs of Inl e \<Rightarrow> Inl e | Inr xs \<Rightarrow> Inr (x # xs))"

fun collect_items :: "(string \<times> (py_error + 'a)) list \<Rightarrow> py_error + (string \<times> 'a) list" where
  "collect_items [] = Inr []"
| "collect_items ((k, Inl e) # rs) = Inl e"
| "collect_items ((k, Inr x) # rs) =
     (case collect_items rs of Inl e \<Rightarrow> Inl e | Inr xs \<Rightarrow> Inr ((k, x) # xs))"

text \<open>
  \<^verbatim>\<open>json.dump(obj, outfile, indent=4, sort_keys=True)\<close> as the document it writes, or
  the exception that ends it: tuples and lists both become arrays, the members of an
  object are written in the order of their keys, a float is written so that it is
  read back as it is, an integer needs its decimal text, and there is no JSON for
  bytes, sets, complex numbers and \<^verbatim>\<open>Ellipsis\<close>, which is a \<^verbatim>\<open>TypeError\<close>.
\<close>

primrec json_dump :: "pyval \<Rightarrow> py_error + json" where
  "json_dump PNone = Inr JNull"
| "json_dump PEllipsis = Inl TypeError"
| "json_dump (PBool b) = Inr (JBool b)"
| "json_dump (PInt i) = (if int_has_text i then Inr (JInt i) else Inl ValueError)"
| "json_dump (PFloat x) = Inr (JFloat x)"
| "json_dump PComplex = Inl TypeError"
| "json_dump (PStr s) = Inr (JString s)"
| "json_dump (PBytes b) = Inl TypeError"
| "json_dump (PTuple xs) =
     (case collect (map json_dump xs) of Inl e \<Rightarrow> Inl e | Inr js \<Rightarrow> Inr (JArray js))"
| "json_dump (PList xs) =
     (case collect (map json_dump xs) of Inl e \<Rightarrow> Inl e | Inr js \<Rightarrow> Inr (JArray js))"
| "json_dump (PSet s) = Inl TypeError"
| "json_dump (PDict m) =
     (case collect_items (sorted_list_of_fmap (fmmap json_dump m)) of
        Inl e \<Rightarrow> Inl e
      | Inr kvs \<Rightarrow> Inr (JObject kvs))"

text \<open>
  \<^verbatim>\<open>json.load\<close> on a document: an array becomes a list, an object a dictionary, and an
  integer of too many digits is a \<^verbatim>\<open>ValueError\<close>.
\<close>

primrec json_load :: "json \<Rightarrow> py_error + pyval" where
  "json_load JNull = Inr PNone"
| "json_load (JBool b) = Inr (PBool b)"
| "json_load (JInt i) = (if int_has_text i then Inr (PInt i) else Inl ValueError)"
| "json_load (JFloat x) = Inr (PFloat x)"
| "json_load (JString s) = Inr (PStr s)"
| "json_load (JArray xs) =
     (case collect (map json_load xs) of Inl e \<Rightarrow> Inl e | Inr vs \<Rightarrow> Inr (PList vs))"
| "json_load (JObject kvs) =
     (case collect_items (map (map_prod id json_load) kvs) of
        Inl e \<Rightarrow> Inl e
      | Inr items \<Rightarrow> Inr (PDict (py_dict items)))"

text \<open>\<^verbatim>\<open>obj.get(key, default)\<close>, a method of dictionaries only.\<close>

definition py_get :: "pyval \<Rightarrow> string \<Rightarrow> pyval \<Rightarrow> py_error + pyval" where
  "py_get obj key dflt =
     (case obj of
        PDict m \<Rightarrow> Inr (case fmlookup m key of None \<Rightarrow> dflt | Some v \<Rightarrow> v)
      | _ \<Rightarrow> Inl AttributeError)"

text \<open>\<^verbatim>\<open>obj[key]\<close> for a string \<open>key\<close>.\<close>

definition py_getitem :: "pyval \<Rightarrow> string \<Rightarrow> py_error + pyval" where
  "py_getitem obj key =
     (case obj of
        PDict m \<Rightarrow> (case fmlookup m key of None \<Rightarrow> Inl KeyError | Some v \<Rightarrow> Inr v)
      | _ \<Rightarrow> Inl TypeError)"

text \<open>
  \<^verbatim>\<open>value != n\<close> for an integer \<open>n\<close> and a value that \<^verbatim>\<open>json.load\<close> gave or a string:
  Python's \<^verbatim>\<open>True\<close> equals 1 and \<^verbatim>\<open>False\<close> 0, and a float equals the integer of its value.
\<close>

fun py_ne_int :: "pyval \<Rightarrow> int \<Rightarrow> bool" where
  "py_ne_int (PInt i) n = (i \<noteq> n)"
| "py_ne_int (PBool b) n = ((if b then 1 else 0) \<noteq> n)"
| "py_ne_int (PFloat (Finite r)) n = (r \<noteq> of_int n)"
| "py_ne_int _ n = True"

definition parse_existing_index :: "filesystem \<Rightarrow> string \<Rightarrow> pyval outcome" where
  "parse_existing_index fs index_fname =
     (case json_files fs index_fname of
        None \<Rightarrow> ([Reading_existing index_fname], Inl OSError)
      | Some Not_json \<Rightarrow> ([Reading_existing index_fname], Inl JSONDecodeError)
      | Some (Json_text doc) \<Rightarrow>
          (case json_load doc of
             Inl e \<Rightarrow> ([Reading_existing index_fname], Inl e)
           | Inr existing_data \<Rightarrow>
               (case py_get existing_data ''schema-version'' (PStr ''-missing-'') of
                  Inl e \<Rightarrow> ([Reading_existing index_fname], Inl e)
                | Inr schema_version \<Rightarrow>
                    if py_ne_int schema_version CURRENT_SCHEMA_VERSION then
                      ([Reading_existing index_fname, Wrong_schema_version schema_version],
                       Inl ValueError)
                    else
                      (case py_getitem existing_data ''addons'' of
                         Inl e \<Rightarrow> ([Reading_existing index_fname], Inl e)
                       | Inr addon_data \<Rightarrow>
                           ([Reading_existing index_fname], Inr addon_data)))))"

text \<open>
  Opening the file for writing empties it, so a dump that fails leaves text that is
  no JSON document. The path is taken to be writable.
\<close>

definition write_index_file :: "filesystem \<Rightarrow> string \<Rightarrow> pyval \<Rightarrow> filesystem \<times> unit outcome" where
  "write_index_file fs index_fname addon_data =
     (case json_dump addon_data of
        Inl e \<Rightarrow>
          (fs\<lparr>json_files := (json_files fs)(index_fname \<mapsto> Not_json)\<rparr>,
           [Writing_addon_index index_fname], Inl e)
      | Inr doc \<Rightarrow>
          (fs\<lparr>json_files := (json_files fs)(index_fname \<mapsto> Json_text doc)\<rparr>,
           [Writing_addon_index index_fname], Inr ()))"

subsection \<open>\<^verbatim>\<open>main\<close>\<close>

text \<open>The parsed command line.\<close>

record args =
  merge :: bool
  source :: string
  base :: string
  dir :: string

definition main ::
  "(string \<Rightarrow> string \<Rightarrow> string) \<Rightarrow> args \<Rightarrow> filesystem \<Rightarrow> filesystem \<times> unit outcome" where
  "main urljoin args fs =
     (case (if merge args then parse_existing_index fs ''index.json''
            else ([], Inr (PDict fmempty))) of
        (lg1, Inl e) \<Rightarrow> (fs, lg1, Inl e)
      | (lg1, Inr addon_data) \<Rightarrow>
          (case parse_addons urljoin fs (dir args) (source args) (base args) of
             (lg2, Inl e) \<Rightarrow> (fs, lg1 @ lg2, Inl e)
           | (lg2, Inr new_addon_data) \<Rightarrow>
               (case dict_update addon_data new_addon_data of
                  Inl e \<Rightarrow> (fs, lg1 @ lg2, Inl e)
                | Inr addon_data' \<Rightarrow>
                    let final_json =
                          PDict (py_dict [(''schema-version'', PInt CURRENT_SCHEMA_VERSION),
                                          (''addons'', addon_data')])
                    in (case write_index_file fs ''index.json'' final_json of
                          (fs', lg3, Inl e) \<Rightarrow> (fs', lg1 @ lg2 @ lg3, Inl e)
                        | (fs', lg3, Inr u) \<Rightarrow> (fs', lg1 @ lg2 @ lg3 @ [Done], Inr ())))))"

subsection \<open>Notions used to state the properties\<close>

text \<open>A value with each tuple in it replaced by the list of the same elements.\<close>

primrec listify :: "pyval \<Rightarrow> pyval" where
  "listify PNone = PNone"
| "listify PEllipsis = PEllipsis"
| "listify (PBool b) = PBool b"
| "listify (PInt i) = PInt i"
| "listify (PFloat x) = PFloat x"
| "listify PComplex = PComplex"
| "listify (PStr s) = PStr s"
| "listify (PBytes b) = PBytes b"
| "listify (PTuple xs) = PList (map listify xs)"
| "listify (PList xs) = PList (map listify xs)"
| "listify (PSet s) = PSet (listify |`| s)"
| "listify (PDict m) = PDict (fmmap listify m)"



text \<open>
  The values JSON has a place for: \<^verbatim>\<open>None\<close>, booleans, integers that have a decimal
  text, floats, strings, and tuples, lists and dictionaries of such values.
\<close>

primrec json_writable :: "pyval \<Rightarrow> bool" where
  "json_writable PNone = True"
| "json_writable PEllipsis = False"
| "json_writable (PBool b) = True"
| "json_writable (PInt i) = int_has_text i"
| "json_writable (PFloat x) = True"
| "json_writable PComplex = False"
| "json_writable (PStr s) = True"
| "json_writable (PBytes b) = False"
| "json_writable (PTuple xs) = list_all (\<lambda>w. w) (map json_writable xs)"
| "json_writable (PList xs) = list_all (\<lambda>w. w) (map json_writable xs)"
| "json_writable (PSet s) = False"
| "json_writable (PDict m) = (False \<notin> fmran' (fmmap json_writable m))"

text \<open>An index entry with every key of \<open>REQUIRED_KEYS\<close>.\<close>

definition has_required_keys :: "pyval \<Rightarrow> bool" where
  "has_required_keys entry =
     (case entry of
        PDict d \<Rightarrow> list_all (\<lambda>key. key |\<in>| fmdom d) REQUIRED_KEYS
      | _ \<Rightarrow> False)"

subsection \<open>Example inputs\<close>

text \<open>
  A stand-in for \<^verbatim>\<open>urljoin\<close> in the examples: for a base that ends with a slash and a
  plain file name, \<^verbatim>\<open>urljoin\<close> appends the name to the base.
\<close>

definition join_url :: "string \<Rightarrow> string \<Rightarrow> string" where
  "join_url b u = b @ u"

text \<open>
  \<^verbatim>\<open>foo.py\<close>, a statement followed by
  \<^verbatim>\<open>bl_info = {'name': 'Foo', 'blender': (2, 79, 0)}\<close>.
\<close>

definition foo_py :: source_file where
  "foo_py = Module [Other_stmt,
     Assign [Name ''bl_info'']
       (EDict [(''name'', EConstant (CStr ''Foo'')),
               (''blender'', ETuple [EConstant (CInt 2), EConstant (CInt 79), EConstant (CInt 0)])])]"

text \<open>
  \<^verbatim>\<open>foo/__init__.py\<close>:
  \<^verbatim>\<open>bl_info = {'name': 'Foo package', 'blender': [2, 80], 'author': 'me'}\<close>.
\<close>

definition foo_init_py :: source_file where
  "foo_init_py = Module
     [Assign [Name ''bl_info'']
       (EDict [(''name'', EConstant (CStr ''Foo package'')),
               (''blender'', EList [EConstant (CInt 2), EConstant (CInt 80)]),
               (''author'', EConstant (CStr ''me''))])]"

text \<open>
  \<^verbatim>\<open>bar.py\<close>: \<^verbatim>\<open>bl_info = {'name': 'Bar', 'blender': (2, 80, 0), 'version': 1.5}\<close>.
\<close>

definition bar_py :: source_file where
  "bar_py = Module
     [Assign [Name ''bl_info'']
       (EDict [(''name'', EConstant (CStr ''Bar'')),
               (''blender'', ETuple [EConstant (CInt 2), EConstant (CInt 80), EConstant (CInt 0)]),
               (''version'', EConstant (CFloat (Finite (3 / 2))))])]"

text \<open>A file system with the three files, the directory \<^verbatim>\<open>addons\<close> listed as \<open>items\<close>,
  and no \<^verbatim>\<open>index.json\<close>.\<close>

definition addons_fs :: "dir_entry list \<Rightarrow> filesystem" where
  "addons_fs items =
     \<lparr>scandir = (\<lambda>p. if p = ''addons'' then Inr items else Inl OSError),
      py_files = [''addons/foo.py'' \<mapsto> foo_py, ''addons/foo/__init__.py'' \<mapsto> foo_init_py,
                  ''addons/bar.py'' \<mapsto> bar_py],
      json_files = Map.empty\<rparr>"

text \<open>A file system with \<open>doc\<close> as its \<^verbatim>\<open>index.json\<close>.\<close>

definition with_index :: "json \<Rightarrow> filesystem \<Rightarrow> filesystem" where
  "with_index doc fs = fs\<lparr>json_files := (json_files fs)(''index.json'' \<mapsto> Json_text doc)\<rparr>"

text \<open>The command line \<^verbatim>\<open>generate-json.py addons\<close>, with \<^verbatim>\<open>--merge\<close> when \<open>m\<close> holds.\<close>

definition example_args :: "bool \<Rightarrow> args" where
  "example_args m =
     \<lparr>merge = m, source = ''internal'', base = ''http://localhost:8000/'', dir = ''addons''\<rparr>"

text \<open>An index of an earlier run, with an entry for \<^verbatim>\<open>foo\<close> and one for \<^verbatim>\<open>bar\<close>.\<close>

definition prior_index :: json where
  "prior_index =
     JObject
       [(''schema-version'', JInt 1),
        (''addons'', JObject
           [(''foo'', JObject [(''name'', JString ''Old foo''),
                               (''blender'', JArray [JInt 2, JInt 70]),
                               (''tracker_url'', JString ''http://tracker/'')]),
            (''bar'', JObject [(''name'', JString ''Bar''),
                               (''blender'', JArray [JInt 2, JInt 78])])])]"

text \<open>An index with an entry that has neither \<^verbatim>\<open>name\<close> nor \<^verbatim>\<open>blender\<close>.\<close>

definition unchecked_index :: json where
  "unchecked_index =
     JObject
       [(''schema-version'', JInt 1),
        (''addons'', JObject [(''old'', JObject [(''author'', JString ''me'')])])]"

text \<open>The directory \<^verbatim>\<open>addons\<close> with one file, \<^verbatim>\<open>addon.py\<close>, whose only statement is
  \<^verbatim>\<open>bl_info = dict()\<close>.\<close>

definition call_fs :: filesystem where
  "call_fs =
     \<lparr>scandir = (\<lambda>p. if p = ''addons'' then Inr [DirEntry ''addon.py'' False] else Inl OSError),
      py_files = [''addons/addon.py'' \<mapsto>
                    Module [Assign [Name ''bl_info''] (ECall (EName ''dict'') [] [])]],
      json_files = Map.empty\<rparr>"

section \<open>Properties\<close>

subsection \<open>Dictionaries\<close>

lemma fmlookup_fold_fmupd:
  "fmlookup (fold (\<lambda>(k, v) m. fmupd k v m) kvs m0) x =
     (case map_of (rev kvs) x of None \<Rightarrow> fmlookup m0 x | Some v \<Rightarrow> Some v)"
proof (induction kvs arbitrary: m0)
  case Nil
  show ?case by simp
next
  case (Cons kv kvs)
  obtain k v where kv: "kv = (k, v)" by (cases kv)
  show ?case
    by (simp add: Cons kv map_add_def split: option.splits)
qed

lemma fmlookup_py_dict: "fmlookup (py_dict kvs) x = map_of (rev kvs) x"
  by (simp add: py_dict_def fmlookup_fold_fmupd split: option.splits)

lemma fmdom_py_dict: "fmdom (py_dict kvs) = fset_of_list (map fst kvs)"
proof (rule fset_eqI)
  fix x
  have "x |\<in>| fmdom (py_dict kvs) \<longleftrightarrow> map_of (rev kvs) x \<noteq> None"
    by (simp add: fmlookup_dom_iff fmlookup_py_dict)
  also have "\<dots> \<longleftrightarrow> x \<in> fst ` set kvs"
    by (simp add: map_of_eq_None_iff)
  finally show "x |\<in>| fmdom (py_dict kvs) \<longleftrightarrow> x |\<in>| fset_of_list (map fst kvs)"
    by (simp add: fset_of_list.rep_eq)
qed

lemma missing_keys_dict:
  "missing_keys ks (PDict m) = Inr (filter (\<lambda>k. k |\<notin>| fmdom m) ks)"
  by (induction ks) simp_all

lemma dict_update_dict: "dict_update (PDict m) other = Inr (PDict (m ++\<^sub>f other))"
  by (simp add: dict_update_def)

lemma augment_dict:
  "augment (PDict m) i s url =
     (if ''name'' |\<in>| fmdom m \<and> ''blender'' |\<in>| fmdom m
      then (if filter (\<lambda>k. k |\<notin>| fmdom m) RECOMMENDED_KEYS \<noteq> []
            then [Misses_recommended i (filter (\<lambda>k. k |\<notin>| fmdom m) RECOMMENDED_KEYS)]
            else [],
            Inr (Some (PDict (m ++\<^sub>f py_dict [(''download_url'', PStr url), (''source'', PStr s)]))))
      else ([Misses_required i (filter (\<lambda>k. k |\<notin>| fmdom m) REQUIRED_KEYS)], Inr None))"
  by (simp add: augment_def blinfo_to_json_def missing_keys_dict py_copy_def py_update_def
      dict_update_def Let_def REQUIRED_KEYS_def)

subsection \<open>The scan\<close>

lemma iter_items_cong:
  "py_files fs1 = py_files fs2 \<Longrightarrow> iter_items fs1 d items = iter_items fs2 d items"
  by (induction items) (auto simp: Let_def split: prod.splits)

lemma parse_blinfo_cong:
  "py_files fs1 = py_files fs2 \<Longrightarrow> parse_blinfo fs1 f = parse_blinfo fs2 f"
  by (simp add: parse_blinfo_def)

lemma parse_addons_loop_cong:
  "py_files fs1 = py_files fs2 \<Longrightarrow>
   parse_addons_loop u fs1 s b steps acc = parse_addons_loop u fs2 s b steps acc"
proof (induction steps arbitrary: acc)
  case Nil
  show ?case by simp
next
  case (Cons st steps)
  show ?case
  proof (cases st)
    case (Log ev)
    with Cons show ?thesis by simp
  next
    case (Yield i f x)
    with Cons show ?thesis
      by (simp add: parse_blinfo_cong [of fs1 fs2] Let_def
            split: prod.splits sum.splits option.splits)
  next
    case (Raise e)
    then show ?thesis by simp
  qed
qed

lemma iter_items_append:
  "iter_items fs d (xs @ ys) = iter_items fs d xs @ iter_items fs d ys"
  by (induction xs) (auto simp: Let_def split: prod.splits)

lemma iter_items_filter_hidden:
  "iter_items fs d (filter (\<lambda>item. \<not> startswith (name item) ''.'') items) = iter_items fs d items"
  by (induction items) (auto simp: Let_def split: prod.splits)

lemma iter_items_all_hidden:
  "\<forall>item\<in>set items. startswith (name item) ''.'' \<Longrightarrow> iter_items fs d items = []"
  by (induction items) simp_all

lemma parse_addons_loop_append:
  "parse_addons_loop u fs s b (xs @ ys) acc =
     (case parse_addons_loop u fs s b xs acc of
        (lg, Inl e) \<Rightarrow> (lg, Inl e)
      | (lg, Inr acc') \<Rightarrow>
          (case parse_addons_loop u fs s b ys acc' of (lg', r) \<Rightarrow> (lg @ lg', r)))"
proof (induction xs arbitrary: acc)
  case Nil
  show ?case by simp
next
  case (Cons st xs)
  show ?case
  proof (cases st)
    case (Log ev)
    then show ?thesis by (simp add: Cons split: prod.splits sum.splits)
  next
    case (Yield i f x)
    then show ?thesis
      by (simp add: Cons Let_def split: prod.splits sum.splits option.splits)
  next
    case (Raise e)
    then show ?thesis by simp
  qed
qed



subsection \<open>Writing a document and reading it back\<close>

lemma collect_map_Inr:
  "collect (map f xs) = Inr ys \<Longrightarrow> list_all2 (\<lambda>x y. f x = Inr y) xs ys"
proof (induction xs arbitrary: ys)
  case Nil
  then show ?case by simp
next
  case (Cons x xs)
  then show ?case
    by (cases "f x") (auto split: sum.splits)
qed

lemma collect_map_through:
  assumes "list_all2 (\<lambda>x y. f x = Inr y) xs ys"
    and "\<And>x y. x \<in> set xs \<Longrightarrow> f x = Inr y \<Longrightarrow> g y = Inr (h x)"
  shows "collect (map g ys) = Inr (map h xs)"
  using assms
proof (induction xs ys rule: list_all2_induct)
  case Nil
  show ?case by simp
next
  case (Cons x xs y ys)
  have "g y = Inr (h x)"
    using Cons.hyps(1) by (intro Cons.prems) simp_all
  moreover have "collect (map g ys) = Inr (map h xs)"
    by (rule Cons.IH) (rule Cons.prems, simp_all)
  ultimately show ?case by simp
qed

lemma collect_items_Inr:
  "collect_items kvs = Inr res \<Longrightarrow> kvs = map (\<lambda>(k, v). (k, Inr v)) res"
proof (induction kvs arbitrary: res rule: collect_items.induct)
  case 1
  then show ?case by simp
next
  case (2 k e rs)
  then show ?case by simp
next
  case (3 k x rs)
  then show ?case by (auto split: sum.splits)
qed

lemma collect_items_map_prod:
  "\<forall>(k, j)\<in>set kvs. f j = Inr (g j) \<Longrightarrow>
   collect_items (map (map_prod id f) kvs) = Inr (map (map_prod id g) kvs)"
  by (induction kvs) auto

lemma map_of_rev_distinct:
  "distinct (map fst kvs) \<Longrightarrow> map_of (rev kvs) = map_of kvs"
  by (rule map_of_inject_set [THEN iffD2]) (simp_all add: distinct_rev rev_map [symmetric])

lemma distinct_sorted_list_of_fmap: "distinct (map fst (sorted_list_of_fmap m))"
  by (simp add: sorted_list_of_fmap_def comp_def sorted_list_of_fset.rep_eq)

text \<open>The document of a value is read as that value with its tuples made lists.\<close>

lemma json_load_dump: "json_dump v = Inr j \<Longrightarrow> json_load j = Inr (listify v)"
proof (induction v arbitrary: j)
  case (PInt i)
  then show ?case by (auto split: if_splits)
next
  case (PTuple xs)
  then obtain js where js: "collect (map json_dump xs) = Inr js" and j: "j = JArray js"
    by (auto split: sum.splits)
  have "collect (map json_load js) = Inr (map listify xs)"
    using collect_map_Inr [OF js] by (rule collect_map_through) (rule PTuple.IH)
  with j show ?case by simp
next
  case (PList xs)
  then obtain js where js: "collect (map json_dump xs) = Inr js" and j: "j = JArray js"
    by (auto split: sum.splits)
  have "collect (map json_load js) = Inr (map listify xs)"
    using collect_map_Inr [OF js] by (rule collect_map_through) (rule PList.IH)
  with j show ?case by simp
next
  case (PDict m)
  then obtain kvs where
    kvs: "collect_items (sorted_list_of_fmap (fmmap json_dump m)) = Inr kvs"
    and j: "j = JObject kvs"
    by (auto split: sum.splits)
  let ?skvs = "map (\<lambda>(k, v). (k, Inr v :: py_error + json)) kvs"
  have sorted_eq: "sorted_list_of_fmap (fmmap json_dump m) = ?skvs"
    using collect_items_Inr [OF kvs] .
  have fst_eq: "map fst ?skvs = map fst kvs"
    by (induction kvs) auto
  have "distinct (map fst ?skvs)"
    using distinct_sorted_list_of_fmap [of "fmmap json_dump m"] unfolding sorted_eq .
  then have dist: "distinct (map fst kvs)"
    unfolding fst_eq .
  have lookup: "map_option json_dump (fmlookup m k) = map_option Inr (map_of kvs k)" for k
  proof -
    have "fmlookup (fmmap json_dump m) k = map_of ?skvs k"
      using map_of_sorted_list [of "fmmap json_dump m"] sorted_eq by metis
    also have "map_of ?skvs k = map_option Inr (map_of kvs k)"
      by (induction kvs) auto
    finally show ?thesis by simp
  qed
  define g where "g = (\<lambda>jv. case json_load jv of Inr pv \<Rightarrow> pv | Inl e \<Rightarrow> PNone)"
  have loaded: "\<forall>(k, jv)\<in>set kvs. json_load jv = Inr (g jv) \<and>
      map_option listify (fmlookup m k) = Some (g jv)"
  proof (clarify)
    fix k jv
    assume "(k, jv) \<in> set kvs"
    with dist have mk: "map_of kvs k = Some jv" by simp
    with lookup [of k] obtain pv where pv: "fmlookup m k = Some pv" "json_dump pv = Inr jv"
      by (cases "fmlookup m k") auto
    have "pv \<in> fmran' m" using pv(1) by (rule fmran'I)
    from PDict.IH [OF this pv(2)] have "json_load jv = Inr (listify pv)" .
    then show "json_load jv = Inr (g jv) \<and> map_option listify (fmlookup m k) = Some (g jv)"
      by (simp add: g_def pv(1))
  qed
  then have "\<forall>(k, jv)\<in>set kvs. json_load jv = Inr (g jv)"
    by auto
  then have items: "collect_items (map (map_prod id json_load) kvs)
      = Inr (map (map_prod id g) kvs)"
    by (rule collect_items_map_prod)
  have "fmlookup (py_dict (map (map_prod id g) kvs)) k = fmlookup (fmmap listify m) k" for k
  proof -
    have d2: "distinct (map fst (map (map_prod id g) kvs))"
      using dist by (simp add: comp_def)
    have "fmlookup (py_dict (map (map_prod id g) kvs)) k = map_of (map (map_prod id g) kvs) k"
      by (simp add: fmlookup_py_dict map_of_rev_distinct [OF d2])
    also have "\<dots> = map_option g (map_of kvs k)"
      by (induction kvs) auto
    also have "\<dots> = map_option listify (fmlookup m k)"
    proof (cases "map_of kvs k")
      case None
      with lookup [of k] show ?thesis by (cases "fmlookup m k") auto
    next
      case (Some jv)
      then have "(k, jv) \<in> set kvs" by (rule map_of_SomeD)
      with loaded have "map_option listify (fmlookup m k) = Some (g jv)" by auto
      with Some show ?thesis by (simp only: option.map)
    qed
    finally show ?thesis by simp
  qed
  then have "py_dict (map (map_prod id g) kvs) = fmmap listify m"
    by (rule fmap_ext)
  with j items show ?case by simp
qed simp_all

lemma collect_Inr_iff:
  "(\<exists>ys. collect rs = Inr ys) \<longleftrightarrow> (\<forall>r\<in>set rs. \<exists>y. r = Inr y)"
  by (induction rs rule: collect.induct) (auto split: sum.splits)

lemma collect_items_Inr_iff:
  "(\<exists>res. collect_items kvs = Inr res) \<longleftrightarrow> list_all (\<lambda>(k, r). \<exists>y. r = Inr y) kvs"
  by (induction kvs rule: collect_items.induct) (auto split: sum.splits)

lemma fmpred_fmmap_ran:
  "fmpred (\<lambda>k r. P r) (fmmap f m) \<longleftrightarrow> (\<forall>v\<in>fmran' m. P (f v))"
proof
  assume p: "fmpred (\<lambda>k r. P r) (fmmap f m)"
  show "\<forall>v\<in>fmran' m. P (f v)"
  proof
    fix v
    assume "v \<in> fmran' m"
    then obtain k where "fmlookup m k = Some v"
      by (auto simp: fmlookup_ran'_iff)
    then have "fmlookup (fmmap f m) k = Some (f v)"
      by simp
    with p show "P (f v)"
      by (rule fmpredD)
  qed
next
  assume a: "\<forall>v\<in>fmran' m. P (f v)"
  show "fmpred (\<lambda>k r. P r) (fmmap f m)"
  proof (rule fmpredI)
    fix k y
    assume "fmlookup (fmmap f m) k = Some y"
    then obtain v where v: "fmlookup m k = Some v" and y: "y = f v"
      by (cases "fmlookup m k") simp_all
    from v have "v \<in> fmran' m" by (rule fmran'I)
    with a y show "P y" by simp
  qed
qed

text \<open>The values that can be dumped are those that \<open>json_writable\<close> describes.\<close>

lemma json_dump_writable: "(\<exists>j. json_dump v = Inr j) \<longleftrightarrow> json_writable v"
proof (induction v)
  case (PTuple xs)
  have "(\<exists>j. json_dump (PTuple xs) = Inr j) \<longleftrightarrow> (\<exists>js. collect (map json_dump xs) = Inr js)"
    by (auto split: sum.splits)
  also have "\<dots> \<longleftrightarrow> (\<forall>x\<in>set xs. \<exists>j. json_dump x = Inr j)"
    unfolding collect_Inr_iff by simp
  also have "\<dots> \<longleftrightarrow> (\<forall>x\<in>set xs. json_writable x)"
    using PTuple.IH by simp
  finally show ?case by (simp add: list_all_iff)
next
  case (PList xs)
  have "(\<exists>j. json_dump (PList xs) = Inr j) \<longleftrightarrow> (\<exists>js. collect (map json_dump xs) = Inr js)"
    by (auto split: sum.splits)
  also have "\<dots> \<longleftrightarrow> (\<forall>x\<in>set xs. \<exists>j. json_dump x = Inr j)"
    unfolding collect_Inr_iff by simp
  also have "\<dots> \<longleftrightarrow> (\<forall>x\<in>set xs. json_writable x)"
    using PList.IH by simp
  finally show ?case by (simp add: list_all_iff)
next
  case (PDict m)
  have "(\<exists>j. json_dump (PDict m) = Inr j) \<longleftrightarrow>
      (\<exists>kvs. collect_items (sorted_list_of_fmap (fmmap json_dump m)) = Inr kvs)"
    by (auto split: sum.splits)
  also have "\<dots> \<longleftrightarrow> fmpred (\<lambda>k r. \<exists>y. r = Inr y) (fmmap json_dump m)"
    unfolding collect_items_Inr_iff list_all_sorted_list by (simp add: curry_def)
  also have "\<dots> \<longleftrightarrow> (\<forall>v\<in>fmran' m. \<exists>y. json_dump v = Inr y)"
    by (rule fmpred_fmmap_ran)
  also have "\<dots> \<longleftrightarrow> (\<forall>v\<in>fmran' m. json_writable v)"
    using PDict.IH by simp
  finally show ?case by auto
qed simp_all

lemma json_writable_final_json:
  "json_writable (PDict (py_dict [(''schema-version'', PInt CURRENT_SCHEMA_VERSION),
                                  (''addons'', v)])) \<longleftrightarrow> json_writable v"
proof -
  let ?final = "py_dict [(''schema-version'', PInt CURRENT_SCHEMA_VERSION), (''addons'', v)]"
  have lookup: "fmlookup ?final k =
      (if k = ''addons'' then Some v
       else if k = ''schema-version'' then Some (PInt CURRENT_SCHEMA_VERSION) else None)" for k
    by (simp add: fmlookup_py_dict)
  have one: "int_has_text CURRENT_SCHEMA_VERSION"
    by code_simp
  have "fmran' ?final = {v, PInt CURRENT_SCHEMA_VERSION}"
  proof (rule set_eqI)
    fix x
    have "x \<in> fmran' ?final \<longleftrightarrow> (\<exists>k. fmlookup ?final k = Some x)"
      by (rule fmlookup_ran'_iff)
    also have "\<dots> \<longleftrightarrow> x = v \<or> x = PInt CURRENT_SCHEMA_VERSION"
    proof
      assume "\<exists>k. fmlookup ?final k = Some x"
      then obtain k where "fmlookup ?final k = Some x" ..
      then show "x = v \<or> x = PInt CURRENT_SCHEMA_VERSION"
        unfolding lookup by (simp split: if_splits)
    next
      assume "x = v \<or> x = PInt CURRENT_SCHEMA_VERSION"
      then show "\<exists>k. fmlookup ?final k = Some x"
      proof
        assume "x = v"
        then have "fmlookup ?final ''addons'' = Some x" unfolding lookup by simp
        then show ?thesis ..
      next
        assume "x = PInt CURRENT_SCHEMA_VERSION"
        then have "fmlookup ?final ''schema-version'' = Some x" unfolding lookup by simp
        then show ?thesis ..
      qed
    qed
    finally show "x \<in> fmran' ?final \<longleftrightarrow> x \<in> {v, PInt CURRENT_SCHEMA_VERSION}"
      by simp
  qed
  then show ?thesis
    using one by auto
qed

subsection \<open>The metadata extractor\<close>

text \<open>
  C1 says that \<open>parse_blinfo\<close> never lets an exception reach its caller, also when the
  right-hand side of the assignment is no literal. The call of \<^verbatim>\<open>ast.literal_eval\<close>
  stands outside both \<^verbatim>\<open>try\<close> blocks: for a file whose only statement is
  \<^verbatim>\<open>bl_info = dict()\<close> the function logs nothing but its debug line and ends with the
  \<^verbatim>\<open>ValueError\<close> of \<^verbatim>\<open>literal_eval\<close>, and a run on a directory with that file ends
  with the same exception and writes no index.
\<close>

theorem parse_blinfo_raises_on_call:
  "parse_blinfo call_fs ''addons/addon.py'' = ([Parsing ''addons/addon.py''], Inl ValueError)
   \<and> snd (main join_url (example_args False) call_fs)
     = ([Parsing ''addons/addon.py''], Inl ValueError)
   \<and> json_files (fst (main join_url (example_args False) call_fs)) ''index.json'' = None"
  by code_simp

subsection \<open>The directory scanner\<close>

text \<open>
  C8: the scanner skips every entry whose name starts with a dot. The generator takes
  the same steps as on the listing without those entries, and for a directory with
  hidden entries only \<open>parse_addons\<close> logs nothing and returns the empty mapping.
\<close>

theorem hidden_entries_are_skipped:
  assumes "scandir fs addons_dir = Inr items"
  shows "iter_addons fs addons_dir =
           iter_items fs addons_dir (filter (\<lambda>item. \<not> startswith (name item) ''.'') items)
         \<and> ((\<forall>item\<in>set items. startswith (name item) ''.'') \<longrightarrow>
              parse_addons urljoin fs addons_dir addons_source addons_base_url = ([], Inr fmempty))"
  using assms
  by (simp add: iter_addons_def parse_addons_def iter_items_filter_hidden iter_items_all_hidden)

theorem hidden_entries_are_skipped_witness:
  "scandir (addons_fs [DirEntry ''.git'' True, DirEntry ''.draft.py'' False]) ''addons''
     = Inr [DirEntry ''.git'' True, DirEntry ''.draft.py'' False]
   \<and> startswith ''.git'' ''.'' \<and> startswith ''.draft.py'' ''.''
   \<and> parse_addons join_url (addons_fs [DirEntry ''.git'' True, DirEntry ''.draft.py'' False])
         ''addons'' ''internal'' ''http://localhost:8000/'' = ([], Inr fmempty)"
proof -
  let ?items = "[DirEntry ''.git'' True, DirEntry ''.draft.py'' False]"
  have ls: "scandir (addons_fs ?items) ''addons'' = Inr ?items"
    by (simp add: addons_fs_def)
  have all_hidden: "\<forall>item\<in>set ?items. startswith (name item) ''.''"
    by (simp add: startswith_def)
  from hidden_entries_are_skipped [OF ls, of join_url "''internal''" "''http://localhost:8000/''"]
    all_hidden
  have "parse_addons join_url (addons_fs ?items) ''addons'' ''internal'' ''http://localhost:8000/''
          = ([], Inr fmempty)"
    by blast
  with ls show ?thesis by (simp add: startswith_def)
qed

text \<open>
  C9: a directory entry that is not hidden and has no \<^verbatim>\<open>__init__.py\<close> makes the generator
  log one record at level INFO and yield nothing for it; the scan goes on with the
  entries after it, and \<open>parse_addons\<close> ends as it does on the listing without that
  directory, with the same mapping or the same exception.
\<close>

theorem package_without_init_is_skipped:
  assumes "scandir fs addons_dir = Inr (before @ DirEntry dname True # after)"
    and "\<not> startswith dname ''.''"
    and "py_files fs (path_join (path_join addons_dir dname) ''__init__.py'') = None"
  shows "iter_addons fs addons_dir =
           iter_items fs addons_dir before
           @ Log (Skipping_not_a_package (path_join addons_dir dname))
           # iter_items fs addons_dir after
         \<and> level_of (Skipping_not_a_package (path_join addons_dir dname)) = INFO
         \<and> snd (parse_addons urljoin fs addons_dir addons_source addons_base_url) =
             snd (parse_addons urljoin
                    (fs\<lparr>scandir := (scandir fs)(addons_dir := Inr (before @ after))\<rparr>)
                    addons_dir addons_source addons_base_url)"
proof -
  let ?fs' = "fs\<lparr>scandir := (scandir fs)(addons_dir := Inr (before @ after))\<rparr>"
  let ?skip = "Log (Skipping_not_a_package (path_join addons_dir dname))"
  have steps: "iter_addons fs addons_dir =
      iter_items fs addons_dir before @ ?skip # iter_items fs addons_dir after"
    using assms
    by (simp add: iter_addons_def iter_items_append Let_def split: prod.splits)
  have same_files: "py_files ?fs' = py_files fs"
    by simp
  have steps': "iter_addons ?fs' addons_dir =
      iter_items fs addons_dir before @ iter_items fs addons_dir after"
    by (simp add: iter_addons_def iter_items_append iter_items_cong [OF same_files])
  have loop: "snd (parse_addons_loop urljoin fs addons_source addons_base_url (xs @ ?skip # ys) acc)
      = snd (parse_addons_loop urljoin fs addons_source addons_base_url (xs @ ys) acc)"
    for xs ys acc
    by (simp add: parse_addons_loop_append split: prod.splits sum.splits)
  have "snd (parse_addons urljoin fs addons_dir addons_source addons_base_url) =
      snd (parse_addons urljoin ?fs' addons_dir addons_source addons_base_url)"
    unfolding parse_addons_def steps steps'
    by (simp only: loop parse_addons_loop_cong [OF same_files])
  with steps show ?thesis by simp
qed

theorem package_without_init_is_skipped_witness:
  "scandir (addons_fs [DirEntry ''foo.py'' False, DirEntry ''bar'' True, DirEntry ''foo'' True])
       ''addons''
     = Inr ([DirEntry ''foo.py'' False] @ DirEntry ''bar'' True # [DirEntry ''foo'' True])
   \<and> \<not> startswith ''bar'' ''.''
   \<and> py_files (addons_fs [DirEntry ''foo.py'' False, DirEntry ''bar'' True, DirEntry ''foo'' True])
         (path_join (path_join ''addons'' ''bar'') ''__init__.py'') = None
   \<and> iter_addons (addons_fs [DirEntry ''foo.py'' False, DirEntry ''bar'' True, DirEntry ''foo'' True])
         ''addons''
       = [Yield ''foo'' ''addons/foo.py'' ''.py'',
          Log (Skipping_not_a_package ''addons/bar''),
          Yield ''foo'' ''addons/foo/__init__.py'' ''.zip'']
   \<and> snd (parse_addons join_url
              (addons_fs [DirEntry ''foo.py'' False, DirEntry ''bar'' True, DirEntry ''foo'' True])
              ''addons'' ''internal'' ''http://localhost:8000/'')
       = snd (parse_addons join_url
                (addons_fs [DirEntry ''foo.py'' False, DirEntry ''foo'' True])
                ''addons'' ''internal'' ''http://localhost:8000/'')"
proof -
  let ?fs = "addons_fs [DirEntry ''foo.py'' False, DirEntry ''bar'' True, DirEntry ''foo'' True]"
  have ls: "scandir ?fs ''addons''
      = Inr ([DirEntry ''foo.py'' False] @ DirEntry ''bar'' True # [DirEntry ''foo'' True])"
    by (simp add: addons_fs_def)
  have visible: "\<not> startswith ''bar'' ''.''"
    by (simp add: startswith_def)
  have no_init: "py_files ?fs (path_join (path_join ''addons'' ''bar'') ''__init__.py'') = None"
    by (simp add: addons_fs_def path_join_def)
  have without: "?fs\<lparr>scandir := (scandir ?fs)(''addons'' :=
        Inr ([DirEntry ''foo.py'' False] @ [DirEntry ''foo'' True]))\<rparr>
      = addons_fs [DirEntry ''foo.py'' False, DirEntry ''foo'' True]"
    by (simp add: addons_fs_def fun_eq_iff)
  have steps: "iter_items ?fs ''addons'' [DirEntry ''foo.py'' False]
           @ Log (Skipping_not_a_package (path_join ''addons'' ''bar''))
           # iter_items ?fs ''addons'' [DirEntry ''foo'' True]
      = [Yield ''foo'' ''addons/foo.py'' ''.py'',
          Log (Skipping_not_a_package ''addons/bar''),
          Yield ''foo'' ''addons/foo/__init__.py'' ''.zip'']"
    by code_simp
  from package_without_init_is_skipped [OF ls visible no_init,
      of join_url "''internal''" "''http://localhost:8000/''"]
  show ?thesis
    unfolding without steps using ls visible no_init by blast
qed





subsection \<open>The validator and augmenter\<close>

lemma fmlookup_augmented:
  "fmlookup (decl ++\<^sub>f py_dict [(''download_url'', PStr url), (''source'', PStr src)]) key =
     (if key = ''source'' then Some (PStr src)
      else if key = ''download_url'' then Some (PStr url)
      else fmlookup decl key)"
  by (simp add: fmlookup_py_dict fmlookup_dom_iff)

lemma fmdom_augmented:
  "fmdom (decl ++\<^sub>f py_dict [(''download_url'', PStr url), (''source'', PStr src)]) =
     fmdom decl |\<union>| {|''download_url'', ''source''|}"
  by (simp add: fmdom_py_dict)

text \<open>
  C3: called on a dictionary that has the required keys, \<open>blinfo_to_json\<close> returns a new
  object, a dictionary whose keys are those of the declaration and \<^verbatim>\<open>download_url\<close> and
  \<^verbatim>\<open>source\<close>; every other key has the value it has in the declaration, the two have the
  URL and the source label, and every object that was in the store before the call,
  the declaration among them, is as it was.
\<close>

theorem blinfo_to_json_augments_a_copy:
  assumes "bl_info < length h"
    and "h ! bl_info = PDict decl"
    and "''name'' |\<in>| fmdom decl" and "''blender'' |\<in>| fmdom decl"
  shows "\<exists>h' lg entry.
           blinfo_to_json h bl_info addon_id addons_source url = (h', lg, Inr (Some (length h)))
         \<and> length h' = Suc (length h)
         \<and> h' ! length h = PDict entry
         \<and> fmdom entry = fmdom decl |\<union>| {|''download_url'', ''source''|}
         \<and> (\<forall>key. key \<noteq> ''download_url'' \<and> key \<noteq> ''source'' \<longrightarrow>
                fmlookup entry key = fmlookup decl key)
         \<and> fmlookup entry ''download_url'' = Some (PStr url)
         \<and> fmlookup entry ''source'' = Some (PStr addons_source)
         \<and> (\<forall>a<length h. h' ! a = h ! a)"
proof -
  let ?entry = "decl ++\<^sub>f py_dict [(''download_url'', PStr url), (''source'', PStr addons_source)]"
  let ?h' = "(h @ [PDict decl])[length h := PDict ?entry]"
  let ?lg = "if filter (\<lambda>k. k |\<notin>| fmdom decl) RECOMMENDED_KEYS \<noteq> []
             then [Misses_recommended addon_id (filter (\<lambda>k. k |\<notin>| fmdom decl) RECOMMENDED_KEYS)]
             else []"
  have run: "blinfo_to_json h bl_info addon_id addons_source url = (?h', ?lg, Inr (Some (length h)))"
    using assms
    by (simp add: blinfo_to_json_def missing_keys_dict py_copy_def py_update_def
        dict_update_def Let_def REQUIRED_KEYS_def)
  have len: "length ?h' = Suc (length h)" by simp
  have new: "?h' ! length h = PDict ?entry" by simp
  have old: "\<forall>a<length h. ?h' ! a = h ! a" by (simp add: nth_append)
  have keys: "fmdom ?entry = fmdom decl |\<union>| {|''download_url'', ''source''|}"
    by (rule fmdom_augmented)
  have kept: "\<forall>key. key \<noteq> ''download_url'' \<and> key \<noteq> ''source'' \<longrightarrow>
      fmlookup ?entry key = fmlookup decl key"
    by (intro allI impI) (simp only: fmlookup_augmented, simp)
  have added: "fmlookup ?entry ''download_url'' = Some (PStr url)"
    "fmlookup ?entry ''source'' = Some (PStr addons_source)"
    unfolding fmlookup_augmented by simp_all
  show ?thesis
    by (intro exI [of _ ?h'] exI [of _ ?lg] exI [of _ ?entry] conjI
        run len new keys kept added old)
qed

theorem blinfo_to_json_augments_a_copy_witness:
  "(0::nat) < length [PDict (fmap_of_list [(''name'', PStr ''Foo''),
                                             (''blender'', PTuple [PInt 2, PInt 79, PInt 0])])]
   \<and> ''name'' |\<in>| fmdom (fmap_of_list [(''name'', PStr ''Foo''),
                                       (''blender'', PTuple [PInt 2, PInt 79, PInt 0])])
   \<and> ''blender'' |\<in>| fmdom (fmap_of_list [(''name'', PStr ''Foo''),
                                          (''blender'', PTuple [PInt 2, PInt 79, PInt 0])])
   \<and> (\<exists>h' lg entry.
         blinfo_to_json
           [PDict (fmap_of_list [(''name'', PStr ''Foo''),
                                 (''blender'', PTuple [PInt 2, PInt 79, PInt 0])])]
           0 ''foo'' ''internal'' ''http://localhost:8000/foo.py''
         = (h', lg, Inr (Some 1))
       \<and> h' ! 0 = PDict (fmap_of_list [(''name'', PStr ''Foo''),
                                       (''blender'', PTuple [PInt 2, PInt 79, PInt 0])])
       \<and> h' ! 1 = PDict entry
       \<and> fmdom entry = {|''download_url'', ''source'', ''name'', ''blender''|})"
proof -
  let ?decl = "fmap_of_list [(''name'', PStr ''Foo''),
                             (''blender'', PTuple [PInt 2, PInt 79, PInt 0])]"
  have addr: "(0::nat) < length [PDict ?decl]" by simp
  have obj: "[PDict ?decl] ! 0 = PDict ?decl" by simp
  have keys: "''name'' |\<in>| fmdom ?decl" "''blender'' |\<in>| fmdom ?decl" by simp_all
  from blinfo_to_json_augments_a_copy [OF addr obj keys,
      of "''foo''" "''internal''" "''http://localhost:8000/foo.py''"]
  obtain h' lg entry where
    run: "blinfo_to_json [PDict ?decl] 0 ''foo'' ''internal'' ''http://localhost:8000/foo.py''
            = (h', lg, Inr (Some (length [PDict ?decl])))"
    and "length h' = Suc (length [PDict ?decl])"
    and new: "h' ! length [PDict ?decl] = PDict entry"
    and dom: "fmdom entry = fmdom ?decl |\<union>| {|''download_url'', ''source''|}"
    and "\<forall>key. key \<noteq> ''download_url'' \<and> key \<noteq> ''source'' \<longrightarrow>
           fmlookup entry key = fmlookup ?decl key"
    and "fmlookup entry ''download_url'' = Some (PStr ''http://localhost:8000/foo.py'')"
    and "fmlookup entry ''source'' = Some (PStr ''internal'')"
    and old: "\<forall>a<length [PDict ?decl]. h' ! a = [PDict ?decl] ! a"
    by (elim exE conjE) (rule that)
  from old have kept: "h' ! 0 = PDict ?decl" by simp
  from dom have dom': "fmdom entry = {|''download_url'', ''source'', ''name'', ''blender''|}"
    by simp
  from run have run': "blinfo_to_json [PDict ?decl] 0 ''foo'' ''internal''
      ''http://localhost:8000/foo.py'' = (h', lg, Inr (Some 1))" by simp
  from new have new': "h' ! 1 = PDict entry" by simp
  show ?thesis
    by (intro conjI exI [of _ h'] exI [of _ lg] exI [of _ entry] addr keys run' kept new' dom')
qed

subsection \<open>The whole run\<close>

lemma fmadd_same_dom: "fmdom a = fmdom b \<Longrightarrow> a ++\<^sub>f b = b"
proof (rule fmap_ext)
  fix k
  assume d: "fmdom a = fmdom b"
  show "fmlookup (a ++\<^sub>f b) k = fmlookup b k"
  proof (cases "k |\<in>| fmdom b")
    case True
    then show ?thesis by simp
  next
    case False
    with d have "k |\<notin>| fmdom a" by simp
    with False show ?thesis by (simp add: fmdom_notD)
  qed
qed

lemma iter_addons_cong:
  "scandir fs1 = scandir fs2 \<Longrightarrow> py_files fs1 = py_files fs2 \<Longrightarrow>
   iter_addons fs1 d = iter_addons fs2 d"
  by (simp add: iter_addons_def iter_items_cong [of fs1 fs2] split: sum.splits)

lemma parse_addons_cong:
  "scandir fs1 = scandir fs2 \<Longrightarrow> py_files fs1 = py_files fs2 \<Longrightarrow>
   parse_addons u fs1 d s b = parse_addons u fs2 d s b"
  by (simp add: parse_addons_def iter_addons_cong [of fs1 fs2]
      parse_addons_loop_cong [of fs1 fs2])

lemma final_json_lookup:
  "fmlookup (py_dict [(''schema-version'', PInt CURRENT_SCHEMA_VERSION), (''addons'', v)]) k =
     (if k = ''addons'' then Some v
      else if k = ''schema-version'' then Some (PInt CURRENT_SCHEMA_VERSION) else None)"
  by (simp add: fmlookup_py_dict)

lemma parse_existing_index_written:
  assumes "json_files fs f = Some (Json_text doc)"
    and "json_dump (PDict (py_dict [(''schema-version'', PInt CURRENT_SCHEMA_VERSION),
                                    (''addons'', v)])) = Inr doc"
  shows "parse_existing_index fs f = ([Reading_existing f], Inr (listify v))"
proof -
  let ?final = "py_dict [(''schema-version'', PInt CURRENT_SCHEMA_VERSION), (''addons'', v)]"
  have load: "json_load doc = Inr (PDict (fmmap listify ?final))"
    using json_load_dump [OF assms(2)] by simp
  have sv: "fmlookup (fmmap listify ?final) ''schema-version'' = Some (PInt CURRENT_SCHEMA_VERSION)"
    unfolding fmlookup_map final_json_lookup by simp
  have ad: "fmlookup (fmmap listify ?final) ''addons'' = Some (listify v)"
    unfolding fmlookup_map final_json_lookup by simp
  show ?thesis
    by (simp add: parse_existing_index_def assms(1) load py_get_def py_getitem_def sv ad
        del: fmlookup_map)
qed

lemma write_index_file_ok:
  "json_dump v = Inr doc \<Longrightarrow>
   write_index_file fs f v =
     (fs\<lparr>json_files := (json_files fs)(f \<mapsto> Json_text doc)\<rparr>, [Writing_addon_index f], Inr ())"
  by (simp add: write_index_file_def)

lemma write_index_file_result:
  "write_index_file fs f v = (fs', lg, Inr u) \<Longrightarrow>
   \<exists>doc. json_dump v = Inr doc \<and> lg = [Writing_addon_index f] \<and>
         fs' = fs\<lparr>json_files := (json_files fs)(f \<mapsto> Json_text doc)\<rparr>"
  by (auto simp: write_index_file_def split: sum.splits)

text \<open>What a run that ends well has done.\<close>

lemma main_success:
  assumes "main u args fs = (fs', lg, Inr ())"
  obtains lg1 old lg2 new doc where
    "(if merge args then parse_existing_index fs ''index.json'' else ([], Inr (PDict fmempty)))
       = (lg1, Inr (PDict old))"
    "parse_addons u fs (dir args) (source args) (base args) = (lg2, Inr new)"
    "json_dump (PDict (py_dict [(''schema-version'', PInt CURRENT_SCHEMA_VERSION),
                                (''addons'', PDict (old ++\<^sub>f new))])) = Inr doc"
    "fs' = fs\<lparr>json_files := (json_files fs)(''index.json'' \<mapsto> Json_text doc)\<rparr>"
    "lg = lg1 @ lg2 @ [Writing_addon_index ''index.json'', Done]"
proof -
  obtain lg1 r1 where r1: "(if merge args then parse_existing_index fs ''index.json''
      else ([], Inr (PDict fmempty))) = (lg1, r1)"
    by (cases "if merge args then parse_existing_index fs ''index.json''
      else ([], Inr (PDict fmempty))")
  obtain lg2 r2 where r2: "parse_addons u fs (dir args) (source args) (base args) = (lg2, r2)"
    by (cases "parse_addons u fs (dir args) (source args) (base args)")
  from assms r1 r2 obtain addon_data where a: "r1 = Inr addon_data"
    by (cases r1) (simp_all add: main_def)
  from assms r1 r2 a obtain new where n: "r2 = Inr new"
    by (cases r2) (simp_all add: main_def)
  from assms r1 r2 a n obtain merged where u: "dict_update addon_data new = Inr merged"
    by (cases "dict_update addon_data new") (simp_all add: main_def)
  let ?written = "PDict (py_dict [(''schema-version'', PInt CURRENT_SCHEMA_VERSION),
                                  (''addons'', merged)])"
  obtain fs3 lg3 r3 where w: "write_index_file fs ''index.json'' ?written = (fs3, lg3, r3)"
    by (cases "write_index_file fs ''index.json'' ?written")
  from assms r1 r2 a n u w have r3: "r3 = Inr ()" and fs3: "fs3 = fs'"
    and lg: "lg = lg1 @ lg2 @ lg3 @ [Done]"
    by (cases r3; simp add: main_def Let_def)+
  from write_index_file_result [OF w [unfolded r3]] obtain doc where
    d: "json_dump ?written = Inr doc" "lg3 = [Writing_addon_index ''index.json'']"
      "fs3 = fs\<lparr>json_files := (json_files fs)(''index.json'' \<mapsto> Json_text doc)\<rparr>"
    by (elim exE conjE)
  from d(1) have "json_writable ?written"
    by (rule json_dump_writable [THEN iffD1, OF exI])
  then have "json_writable merged"
    unfolding json_writable_final_json .
  with u obtain old where o: "addon_data = PDict old" and m: "merged = PDict (old ++\<^sub>f new)"
    by (cases addon_data) (auto simp: dict_update_def)
  let ?final = "PDict (py_dict [(''schema-version'', PInt CURRENT_SCHEMA_VERSION),
                                (''addons'', PDict (old ++\<^sub>f new))])"
  show thesis
  proof (rule that [of lg1 old lg2 new doc])
    show "(if merge args then parse_existing_index fs ''index.json''
        else ([], Inr (PDict fmempty))) = (lg1, Inr (PDict old))"
      using r1 a o by simp
    show "parse_addons u fs (dir args) (source args) (base args) = (lg2, Inr new)"
      using r2 n by simp
    show "json_dump ?final = Inr doc"
      using d(1) unfolding m .
    show "fs' = fs\<lparr>json_files := (json_files fs)(''index.json'' \<mapsto> Json_text doc)\<rparr>"
      using d(3) fs3 by simp
    show "lg = lg1 @ lg2 @ [Writing_addon_index ''index.json'', Done]"
      using lg d(2) by simp
  qed
qed

text \<open>
  C5: in merge mode, when the existing index is a JSON object whose \<^verbatim>\<open>schema-version\<close>
  is missing or differs from 1 (as Python compares: \<^verbatim>\<open>true\<close> equals 1), the run logs
  the wrong version at level FATAL and ends with a \<^verbatim>\<open>ValueError\<close>; the file system is
  as it was, so nothing is written and the existing file is untouched. The example is
  an index with \<^verbatim>\<open>schema-version\<close> 2.
\<close>

theorem unsupported_schema_version_aborts:
  assumes "merge args"
    and "json_files fs ''index.json'' = Some (Json_text doc)"
    and "json_load doc = Inr (PDict existing_data)"
    and "schema_version = (case fmlookup existing_data ''schema-version'' of
                             None \<Rightarrow> PStr ''-missing-'' | Some v \<Rightarrow> v)"
    and "py_ne_int schema_version CURRENT_SCHEMA_VERSION"
  shows "main urljoin args fs =
           (fs, [Reading_existing ''index.json'', Wrong_schema_version schema_version],
            Inl ValueError)
         \<and> level_of (Wrong_schema_version schema_version) = FATAL"
  using assms by (simp add: main_def parse_existing_index_def py_get_def)

theorem unsupported_schema_version_aborts_witness:
  "merge (example_args True)
   \<and> json_files
       (with_index (JObject [(''schema-version'', JInt 2), (''addons'', JObject [])])
          (addons_fs [DirEntry ''foo.py'' False]))
       ''index.json''
     = Some (Json_text (JObject [(''schema-version'', JInt 2), (''addons'', JObject [])]))
   \<and> json_load (JObject [(''schema-version'', JInt 2), (''addons'', JObject [])])
     = Inr (PDict (fmap_of_list [(''schema-version'', PInt 2), (''addons'', PDict fmempty)]))
   \<and> py_ne_int (PInt 2) CURRENT_SCHEMA_VERSION
   \<and> main join_url (example_args True)
       (with_index (JObject [(''schema-version'', JInt 2), (''addons'', JObject [])])
          (addons_fs [DirEntry ''foo.py'' False]))
     = (with_index (JObject [(''schema-version'', JInt 2), (''addons'', JObject [])])
          (addons_fs [DirEntry ''foo.py'' False]),
        [Reading_existing ''index.json'', Wrong_schema_version (PInt 2)],
        Inl ValueError)"
proof -
  let ?doc = "JObject [(''schema-version'', JInt 2), (''addons'', JObject [])]"
  let ?fs = "with_index ?doc (addons_fs [DirEntry ''foo.py'' False])"
  let ?data = "fmap_of_list [(''schema-version'', PInt 2), (''addons'', PDict fmempty)]"
  have m: "merge (example_args True)"
    by (simp add: example_args_def)
  have in_file: "json_files ?fs ''index.json'' = Some (Json_text ?doc)"
    by (simp add: with_index_def)
  have load: "json_load ?doc = Inr (PDict ?data)"
    by code_simp
  have version: "PInt 2 = (case fmlookup ?data ''schema-version'' of
      None \<Rightarrow> PStr ''-missing-'' | Some v \<Rightarrow> v)"
    by simp
  have differs: "py_ne_int (PInt 2) CURRENT_SCHEMA_VERSION"
    by (simp add: CURRENT_SCHEMA_VERSION_def)
  from unsupported_schema_version_aborts [OF m in_file load version differs, of join_url]
  have "main join_url (example_args True) ?fs =
      (?fs, [Reading_existing ''index.json'', Wrong_schema_version (PInt 2)], Inl ValueError)"
    by (rule conjunct1)
  then show ?thesis
    by (intro conjI m in_file load differs)
qed

text \<open>
  C6: a run in merge mode that ends well has written the document of a mapping that
  has, for every identifier, the entry of the new scan when the scan has one, and
  otherwise the entry of the prior index when that has one, and no entry otherwise.
\<close>

theorem merge_overlays_new_entries:
  assumes "merge args"
    and "parse_existing_index fs ''index.json'' = (lg1, Inr (PDict old))"
    and "parse_addons urljoin fs (dir args) (source args) (base args) = (lg2, Inr new)"
    and "main urljoin args fs = (fs', lg, Inr ())"
  shows "\<exists>merged doc.
           json_files fs' ''index.json'' = Some (Json_text doc)
         \<and> json_dump (PDict (py_dict [(''schema-version'', PInt CURRENT_SCHEMA_VERSION),
                                       (''addons'', PDict merged)])) = Inr doc
         \<and> (\<forall>addon_id. fmlookup merged addon_id =
               (case fmlookup new addon_id of
                  Some entry \<Rightarrow> Some entry
                | None \<Rightarrow> fmlookup old addon_id))"
proof -
  from assms(4) obtain lg1' old' lg2' new' doc where
    prior: "(if merge args then parse_existing_index fs ''index.json''
             else ([], Inr (PDict fmempty))) = (lg1', Inr (PDict old'))"
    and scan: "parse_addons urljoin fs (dir args) (source args) (base args) = (lg2', Inr new')"
    and dump: "json_dump (PDict (py_dict [(''schema-version'', PInt CURRENT_SCHEMA_VERSION),
                                (''addons'', PDict (old' ++\<^sub>f new'))])) = Inr doc"
    and fs': "fs' = fs\<lparr>json_files := (json_files fs)(''index.json'' \<mapsto> Json_text doc)\<rparr>"
    by (rule main_success)
  from prior assms(1,2) have old: "old' = old" by simp
  from scan assms(3) have new: "new' = new" by simp
  have in_file: "json_files fs' ''index.json'' = Some (Json_text doc)"
    by (simp add: fs')
  have overlay: "\<forall>addon_id. fmlookup (old ++\<^sub>f new) addon_id =
      (case fmlookup new addon_id of Some entry \<Rightarrow> Some entry | None \<Rightarrow> fmlookup old addon_id)"
    by (simp add: fmlookup_dom_iff split: option.splits)
  show ?thesis
    by (intro exI [of _ "old ++\<^sub>f new"] exI [of _ doc] conjI in_file overlay
        dump [unfolded old new])
qed

theorem merge_overlays_new_entries_witness:
  "merge (example_args True)
   \<and> snd (parse_existing_index (with_index prior_index (addons_fs [DirEntry ''foo.py'' False]))
           ''index.json'')
     = Inr (PDict (fmap_of_list
         [(''foo'', PDict (fmap_of_list [(''name'', PStr ''Old foo''),
                                          (''blender'', PList [PInt 2, PInt 70]),
                                          (''tracker_url'', PStr ''http://tracker/'')])),
          (''bar'', PDict (fmap_of_list [(''name'', PStr ''Bar''),
                                          (''blender'', PList [PInt 2, PInt 78])]))]))
   \<and> snd (parse_addons join_url (with_index prior_index (addons_fs [DirEntry ''foo.py'' False]))
           ''addons'' ''internal'' ''http://localhost:8000/'')
     = Inr (fmap_of_list
         [(''foo'', PDict (fmap_of_list
             [(''name'', PStr ''Foo''),
              (''blender'', PTuple [PInt 2, PInt 79, PInt 0]),
              (''download_url'', PStr ''http://localhost:8000/foo.py''),
              (''source'', PStr ''internal'')]))])
   \<and> snd (snd (main join_url (example_args True)
                 (with_index prior_index (addons_fs [DirEntry ''foo.py'' False])))) = Inr ()
   \<and> (\<exists>merged doc.
         json_files
           (fst (main join_url (example_args True)
                   (with_index prior_index (addons_fs [DirEntry ''foo.py'' False]))))
           ''index.json'' = Some (Json_text doc)
       \<and> json_dump (PDict (py_dict [(''schema-version'', PInt CURRENT_SCHEMA_VERSION),
                                     (''addons'', PDict merged)])) = Inr doc
       \<and> fmlookup merged ''foo''
           = Some (PDict (fmap_of_list
               [(''name'', PStr ''Foo''),
                (''blender'', PTuple [PInt 2, PInt 79, PInt 0]),
                (''download_url'', PStr ''http://localhost:8000/foo.py''),
                (''source'', PStr ''internal'')]))
       \<and> fmlookup merged ''bar''
           = Some (PDict (fmap_of_list [(''name'', PStr ''Bar''),
                                        (''blender'', PList [PInt 2, PInt 78])]))
       \<and> fmlookup merged ''baz'' = None)"
proof -
  let ?fs = "with_index prior_index (addons_fs [DirEntry ''foo.py'' False])"
  let ?args = "example_args True"
  let ?old_bar = "PDict (fmap_of_list [(''name'', PStr ''Bar''),
                                        (''blender'', PList [PInt 2, PInt 78])])"
  let ?old = "fmap_of_list
         [(''foo'', PDict (fmap_of_list [(''name'', PStr ''Old foo''),
                                          (''blender'', PList [PInt 2, PInt 70]),
                                          (''tracker_url'', PStr ''http://tracker/'')])),
          (''bar'', ?old_bar)]"
  let ?new_foo = "PDict (fmap_of_list
             [(''name'', PStr ''Foo''),
              (''blender'', PTuple [PInt 2, PInt 79, PInt 0]),
              (''download_url'', PStr ''http://localhost:8000/foo.py''),
              (''source'', PStr ''internal'')])"
  let ?new = "fmap_of_list [(''foo'', ?new_foo)]"
  have m: "merge ?args"
    by (simp add: example_args_def)
  have prior: "snd (parse_existing_index ?fs ''index.json'') = Inr (PDict ?old)"
    by code_simp
  have scan: "snd (parse_addons join_url ?fs ''addons'' ''internal'' ''http://localhost:8000/'')
      = Inr ?new"
    by code_simp
  have ok: "snd (snd (main join_url ?args ?fs)) = Inr ()"
    by code_simp
  have prior': "parse_existing_index ?fs ''index.json''
      = (fst (parse_existing_index ?fs ''index.json''), Inr (PDict ?old))"
    using prior by (simp add: prod_eq_iff)
  have scan': "parse_addons join_url ?fs (dir ?args) (source ?args) (base ?args)
      = (fst (parse_addons join_url ?fs ''addons'' ''internal'' ''http://localhost:8000/''),
         Inr ?new)"
    using scan by (simp add: prod_eq_iff example_args_def)
  have run: "main join_url ?args ?fs
      = (fst (main join_url ?args ?fs), fst (snd (main join_url ?args ?fs)), Inr ())"
    using ok by (simp add: prod_eq_iff)
  from merge_overlays_new_entries [OF m prior' scan' run]
  obtain merged doc where
    written: "json_files (fst (main join_url ?args ?fs)) ''index.json'' = Some (Json_text doc)"
    and dumped: "json_dump (PDict (py_dict [(''schema-version'', PInt CURRENT_SCHEMA_VERSION),
                                     (''addons'', PDict merged)])) = Inr doc"
    and overlay: "\<forall>addon_id. fmlookup merged addon_id =
               (case fmlookup ?new addon_id of
                  Some entry \<Rightarrow> Some entry
                | None \<Rightarrow> fmlookup ?old addon_id)"
    by (elim exE conjE) (rule that)
  from overlay have foo: "fmlookup merged ''foo'' = Some ?new_foo" by simp
  from overlay have bar: "fmlookup merged ''bar'' = Some ?old_bar" by simp
  from overlay have baz: "fmlookup merged ''baz'' = None" by simp
  show ?thesis
    by (intro conjI exI [of _ merged] exI [of _ doc] m prior scan ok written dumped foo bar baz)
qed

text \<open>
  C7: after a run without \<^verbatim>\<open>--merge\<close> that ended well, a run with \<^verbatim>\<open>--merge\<close> on the
  same directory with the same options ends well, logs what the first run logged
  after the line about reading the index, and leaves \<^verbatim>\<open>index.json\<close> and the rest of the
  file system as the first run left them; and updating the mapping of a scan with
  itself gives that mapping.
\<close>

theorem merging_a_fresh_index_into_itself:
  assumes "main urljoin (args\<lparr>merge := False\<rparr>) fs = (fs1, lg1, Inr ())"
  shows "main urljoin (args\<lparr>merge := True\<rparr>) fs1
           = (fs1, Reading_existing ''index.json'' # lg1, Inr ())
         \<and> (\<forall>lg fresh.
               parse_addons urljoin fs (dir args) (source args) (base args) = (lg, Inr fresh)
               \<longrightarrow> dict_update (PDict fresh) fresh = Inr (PDict fresh))"
proof -
  let ?f = "''index.json''"
  from assms obtain lg0 old lg2 new doc where
    prior: "(if merge (args\<lparr>merge := False\<rparr>) then parse_existing_index fs ?f
             else ([], Inr (PDict fmempty))) = (lg0, Inr (PDict old))"
    and scan: "parse_addons urljoin fs (dir (args\<lparr>merge := False\<rparr>))
                 (source (args\<lparr>merge := False\<rparr>)) (base (args\<lparr>merge := False\<rparr>))
               = (lg2, Inr new)"
    and dump: "json_dump (PDict (py_dict [(''schema-version'', PInt CURRENT_SCHEMA_VERSION),
                                (''addons'', PDict (old ++\<^sub>f new))])) = Inr doc"
    and fs1: "fs1 = fs\<lparr>json_files := (json_files fs)(?f \<mapsto> Json_text doc)\<rparr>"
    and lg1: "lg1 = lg0 @ lg2 @ [Writing_addon_index ?f, Done]"
    by (rule main_success)
  from prior have old: "old = fmempty" and lg0: "lg0 = []" by simp_all
  have dump': "json_dump (PDict (py_dict [(''schema-version'', PInt CURRENT_SCHEMA_VERSION),
                                (''addons'', PDict new)])) = Inr doc"
    using dump by (simp add: old)
  have in_file: "json_files fs1 ?f = Some (Json_text doc)"
    by (simp add: fs1)
  have read: "parse_existing_index fs1 ?f = ([Reading_existing ?f], Inr (PDict (fmmap listify new)))"
    using parse_existing_index_written [OF in_file dump'] by simp
  have scan1: "parse_addons urljoin fs1 (dir args) (source args) (base args) = (lg2, Inr new)"
    using scan parse_addons_cong [of fs1 fs] by (simp add: fs1)
  have same: "fmmap listify new ++\<^sub>f new = new"
    by (rule fmadd_same_dom) simp
  have again: "fs1\<lparr>json_files := (json_files fs1)(?f \<mapsto> Json_text doc)\<rparr> = fs1"
    by (simp add: fs1)
  have "main urljoin (args\<lparr>merge := True\<rparr>) fs1 = (fs1, Reading_existing ?f # lg1, Inr ())"
    by (simp add: main_def read scan1 dict_update_def same
        write_index_file_ok [OF dump'] again lg1 lg0)
  moreover have "dict_update (PDict fresh) fresh = Inr (PDict fresh)" for fresh
    by (simp add: dict_update_def fmadd_same_dom)
  ultimately show ?thesis by simp
qed

theorem merging_a_fresh_index_into_itself_witness:
  "snd (snd (main join_url (example_args False)
               (addons_fs [DirEntry ''foo.py'' False, DirEntry ''foo'' True]))) = Inr ()
   \<and> main join_url (example_args True)
       (fst (main join_url (example_args False)
               (addons_fs [DirEntry ''foo.py'' False, DirEntry ''foo'' True])))
     = (fst (main join_url (example_args False)
               (addons_fs [DirEntry ''foo.py'' False, DirEntry ''foo'' True])),
        Reading_existing ''index.json''
        # fst (snd (main join_url (example_args False)
                      (addons_fs [DirEntry ''foo.py'' False, DirEntry ''foo'' True]))),
        Inr ())"
proof -
  let ?fs = "addons_fs [DirEntry ''foo.py'' False, DirEntry ''foo'' True]"
  have ok: "snd (snd (main join_url (example_args False) ?fs)) = Inr ()"
    by code_simp
  have off: "(example_args False)\<lparr>merge := False\<rparr> = example_args False"
    and on: "(example_args False)\<lparr>merge := True\<rparr> = example_args True"
    by (simp_all add: example_args_def)
  have run: "main join_url ((example_args False)\<lparr>merge := False\<rparr>) ?fs
      = (fst (main join_url (example_args False) ?fs),
         fst (snd (main join_url (example_args False) ?fs)), Inr ())"
    unfolding off using ok by (simp add: prod_eq_iff)
  from merging_a_fresh_index_into_itself [OF run]
  have "main join_url ((example_args False)\<lparr>merge := True\<rparr>)
          (fst (main join_url (example_args False) ?fs))
      = (fst (main join_url (example_args False) ?fs),
         Reading_existing ''index.json'' # fst (snd (main join_url (example_args False) ?fs)),
         Inr ())"
    by (rule conjunct1)
  then show ?thesis
    unfolding on by (intro conjI ok)
qed

subsection \<open>The round trip through the file\<close>










subsection \<open>Required keys\<close>

lemma has_required_keys_listify: "has_required_keys (listify entry) = has_required_keys entry"
  by (cases entry) (simp_all add: has_required_keys_def)

text \<open>
  What \<open>blinfo_to_json\<close> lets through is a dictionary with the required keys or a set;
  a set cannot be written.
\<close>

lemma augment_required:
  "augment bl_info addon_id src url = (lg, Inr (Some as_json)) \<Longrightarrow>
   has_required_keys as_json \<or> \<not> json_writable as_json"
proof (cases bl_info)
  case (PDict m)
  assume "augment bl_info addon_id src url = (lg, Inr (Some as_json))"
  with PDict show ?thesis
    by (auto simp: augment_dict has_required_keys_def REQUIRED_KEYS_def split: if_splits)
qed (auto simp: augment_def blinfo_to_json_def py_copy_def py_update_def dict_update_def
      REQUIRED_KEYS_def Let_def split: sum.splits if_splits)

lemma fmran'_fmempty: "fmran' fmempty = {}"
  by (auto simp: fmlookup_ran'_iff)

lemma fmran'_fmupd: "fmran' (fmupd k v m) \<subseteq> insert v (fmran' m)"
  by (auto simp: fmlookup_ran'_iff split: if_splits)

lemma fmran'_fmadd: "fmran' (a ++\<^sub>f b) \<subseteq> fmran' a \<union> fmran' b"
  by (auto simp: fmlookup_ran'_iff split: if_splits)

lemma fmran'_fmadd_right: "fmran' b \<subseteq> fmran' (a ++\<^sub>f b)"
proof
  fix v
  assume "v \<in> fmran' b"
  then obtain k where k: "fmlookup b k = Some v"
    by (auto simp: fmlookup_ran'_iff)
  then have "k |\<in>| fmdom b"
    by (simp add: fmlookup_dom_iff)
  with k have "fmlookup (a ++\<^sub>f b) k = Some v"
    by simp
  then show "v \<in> fmran' (a ++\<^sub>f b)"
    by (rule fmran'I)
qed

lemma json_writable_entries:
  "json_writable (PDict m) \<Longrightarrow> entry \<in> fmran' m \<Longrightarrow> json_writable entry"
  by (auto simp: fmran'_fmmap)

lemma parse_addons_loop_required:
  "parse_addons_loop u fs s b steps acc = (lg, Inr m) \<Longrightarrow>
   \<forall>entry\<in>fmran' acc. has_required_keys entry \<or> \<not> json_writable entry \<Longrightarrow>
   \<forall>entry\<in>fmran' m. has_required_keys entry \<or> \<not> json_writable entry"
proof (induction steps arbitrary: acc lg)
  case Nil
  then show ?case by simp
next
  case (Cons st steps)
  show ?case
  proof (cases st)
    case (Log ev)
    with Cons.prems(1) obtain lg' where
      "parse_addons_loop u fs s b steps acc = (lg', Inr m)"
      by (auto split: prod.splits)
    from Cons.IH [OF this Cons.prems(2)] show ?thesis .
  next
    case (Raise e)
    with Cons.prems(1) show ?thesis by simp
  next
    case (Yield i f x)
    from Cons.prems(1) [unfolded Yield]
    consider (same) lg' where "parse_addons_loop u fs s b steps acc = (lg', Inr m)"
      | (more) lg' lg2 bl_info as_json where
          "augment bl_info i s (u b (i @ x)) = (lg2, Inr (Some as_json))"
          "parse_addons_loop u fs s b steps (fmupd i as_json acc) = (lg', Inr m)"
      by (auto simp: Let_def split: prod.splits sum.splits if_splits option.splits)
    then show ?thesis
    proof cases
      case same
      from Cons.IH [OF this Cons.prems(2)] show ?thesis .
    next
      case more
      have "\<forall>entry\<in>fmran' (fmupd i as_json acc).
          has_required_keys entry \<or> \<not> json_writable entry"
        using fmran'_fmupd [of i as_json acc] augment_required [OF more(1)] Cons.prems(2)
        by auto
      from Cons.IH [OF more(2) this] show ?thesis .
    qed
  qed
qed

lemma parse_addons_required:
  "parse_addons u fs d s b = (lg, Inr m) \<Longrightarrow>
   \<forall>entry\<in>fmran' m. has_required_keys entry \<or> \<not> json_writable entry"
  unfolding parse_addons_def by (erule parse_addons_loop_required) (simp add: fmran'_fmempty)

text \<open>
  C2, as the code has it: after a run that ended well, every entry that the scan
  produced has both required keys, and every entry of the written index has them,
  provided that in merge mode every entry of the prior index has them. The entries of a
  prior index are taken over without a check. A declaration that is a set with both
  strings passes the check of \<open>blinfo_to_json\<close> as well, but a set cannot be written, so
  a run with such a declaration does not end well.
\<close>

theorem required_keys_in_every_checked_entry:
  assumes "main urljoin args fs = (fs', lg, Inr ())"
    and "\<forall>lg0 old. merge args \<longrightarrow>
           parse_existing_index fs ''index.json'' = (lg0, Inr (PDict old)) \<longrightarrow>
           (\<forall>entry\<in>fmran' old. has_required_keys entry)"
  shows "(\<forall>lg2 new.
            parse_addons urljoin fs (dir args) (source args) (base args) = (lg2, Inr new) \<longrightarrow>
            (\<forall>entry\<in>fmran' new. has_required_keys entry))
         \<and> (\<exists>addons.
              parse_existing_index fs' ''index.json''
                = ([Reading_existing ''index.json''], Inr (PDict addons))
            \<and> (\<forall>entry\<in>fmran' addons. has_required_keys entry))"
proof -
  let ?f = "''index.json''"
  from assms(1) obtain lg1 old lg2 new doc where
    prior: "(if merge args then parse_existing_index fs ?f
             else ([], Inr (PDict fmempty))) = (lg1, Inr (PDict old))"
    and scan: "parse_addons urljoin fs (dir args) (source args) (base args) = (lg2, Inr new)"
    and dump: "json_dump (PDict (py_dict [(''schema-version'', PInt CURRENT_SCHEMA_VERSION),
                                (''addons'', PDict (old ++\<^sub>f new))])) = Inr doc"
    and fs': "fs' = fs\<lparr>json_files := (json_files fs)(?f \<mapsto> Json_text doc)\<rparr>"
    by (rule main_success)
  from dump have "json_writable (PDict (py_dict [(''schema-version'', PInt CURRENT_SCHEMA_VERSION),
                                (''addons'', PDict (old ++\<^sub>f new))]))"
    by (rule json_dump_writable [THEN iffD1, OF exI])
  then have writable: "json_writable (PDict (old ++\<^sub>f new))"
    unfolding json_writable_final_json .
  have new_ok: "\<forall>entry\<in>fmran' new. has_required_keys entry"
  proof
    fix entry
    assume e: "entry \<in> fmran' new"
    with fmran'_fmadd_right [of new old] have "entry \<in> fmran' (old ++\<^sub>f new)"
      by (rule subsetD)
    with writable have "json_writable entry"
      by (rule json_writable_entries)
    moreover from parse_addons_required [OF scan] e
    have "has_required_keys entry \<or> \<not> json_writable entry"
      by (rule bspec)
    ultimately show "has_required_keys entry"
      by (elim disjE) (assumption, erule notE)
  qed
  have old_ok: "\<forall>entry\<in>fmran' old. has_required_keys entry"
  proof (cases "merge args")
    case True
    with prior assms(2) show ?thesis by simp
  next
    case False
    with prior have "old = fmempty" by simp
    then show ?thesis by (simp add: fmran'_fmempty)
  qed
  have merged_ok: "\<forall>entry\<in>fmran' (old ++\<^sub>f new). has_required_keys entry"
    using fmran'_fmadd [of old new] old_ok new_ok by blast
  have in_file: "json_files fs' ?f = Some (Json_text doc)"
    by (simp add: fs')
  have read: "parse_existing_index fs' ?f
      = ([Reading_existing ?f], Inr (PDict (fmmap listify (old ++\<^sub>f new))))"
    using parse_existing_index_written [OF in_file dump] by simp
  have read_ok: "\<forall>entry\<in>fmran' (fmmap listify (old ++\<^sub>f new)). has_required_keys entry"
    unfolding fmran'_fmmap using merged_ok by (simp add: has_required_keys_listify)
  have scans: "\<forall>lg2 new.
      parse_addons urljoin fs (dir args) (source args) (base args) = (lg2, Inr new) \<longrightarrow>
      (\<forall>entry\<in>fmran' new. has_required_keys entry)"
    using scan new_ok by simp
  show ?thesis
    by (intro conjI scans exI [of _ "fmmap listify (old ++\<^sub>f new)"] read read_ok)
qed

theorem required_keys_in_every_checked_entry_witness:
  "snd (snd (main join_url (example_args True)
               (with_index prior_index (addons_fs [DirEntry ''foo.py'' False])))) = Inr ()
   \<and> snd (parse_existing_index (with_index prior_index (addons_fs [DirEntry ''foo.py'' False]))
           ''index.json'')
     = Inr (PDict (fmap_of_list
         [(''foo'', PDict (fmap_of_list [(''name'', PStr ''Old foo''),
                                          (''blender'', PList [PInt 2, PInt 70]),
                                          (''tracker_url'', PStr ''http://tracker/'')])),
          (''bar'', PDict (fmap_of_list [(''name'', PStr ''Bar''),
                                          (''blender'', PList [PInt 2, PInt 78])]))]))
   \<and> has_required_keys (PDict (fmap_of_list [(''name'', PStr ''Old foo''),
                                              (''blender'', PList [PInt 2, PInt 70]),
                                              (''tracker_url'', PStr ''http://tracker/'')]))
   \<and> has_required_keys (PDict (fmap_of_list [(''name'', PStr ''Bar''),
                                              (''blender'', PList [PInt 2, PInt 78])]))
   \<and> (\<exists>addons.
         parse_existing_index
           (fst (main join_url (example_args True)
                   (with_index prior_index (addons_fs [DirEntry ''foo.py'' False]))))
           ''index.json''
         = ([Reading_existing ''index.json''], Inr (PDict addons))
       \<and> (\<forall>entry\<in>fmran' addons. has_required_keys entry))"
proof -
  let ?fs = "with_index prior_index (addons_fs [DirEntry ''foo.py'' False])"
  let ?args = "example_args True"
  let ?old_foo = "PDict (fmap_of_list [(''name'', PStr ''Old foo''),
                                       (''blender'', PList [PInt 2, PInt 70]),
                                       (''tracker_url'', PStr ''http://tracker/'')])"
  let ?old_bar = "PDict (fmap_of_list [(''name'', PStr ''Bar''),
                                       (''blender'', PList [PInt 2, PInt 78])])"
  let ?old = "fmap_of_list [(''foo'', ?old_foo), (''bar'', ?old_bar)]"
  have ok: "snd (snd (main join_url ?args ?fs)) = Inr ()"
    by code_simp
  have prior: "snd (parse_existing_index ?fs ''index.json'') = Inr (PDict ?old)"
    by code_simp
  have foo: "has_required_keys ?old_foo"
    by (simp add: has_required_keys_def REQUIRED_KEYS_def)
  have bar: "has_required_keys ?old_bar"
    by (simp add: has_required_keys_def REQUIRED_KEYS_def)
  have run: "main join_url ?args ?fs
      = (fst (main join_url ?args ?fs), fst (snd (main join_url ?args ?fs)), Inr ())"
    using ok by (simp add: prod_eq_iff)
  have entries: "\<forall>entry\<in>fmran' ?old. has_required_keys entry"
  proof
    fix entry
    assume "entry \<in> fmran' ?old"
    then obtain k where "fmlookup ?old k = Some entry"
      by (auto simp: fmlookup_ran'_iff)
    then have "entry = ?old_foo \<or> entry = ?old_bar"
      by (simp split: if_splits)
    with foo bar show "has_required_keys entry"
      by (elim disjE) (simp_all only:)
  qed
  have checked: "\<forall>lg0 old. merge ?args \<longrightarrow>
      parse_existing_index ?fs ''index.json'' = (lg0, Inr (PDict old)) \<longrightarrow>
      (\<forall>entry\<in>fmran' old. has_required_keys entry)"
  proof (intro allI impI)
    fix lg0 old
    assume "parse_existing_index ?fs ''index.json'' = (lg0, Inr (PDict old))"
    with prior have "old = ?old" by simp
    with entries show "\<forall>entry\<in>fmran' old. has_required_keys entry"
      by (simp only:)
  qed
  from required_keys_in_every_checked_entry [OF run checked]
  have "\<exists>addons.
         parse_existing_index (fst (main join_url ?args ?fs)) ''index.json''
         = ([Reading_existing ''index.json''], Inr (PDict addons))
       \<and> (\<forall>entry\<in>fmran' addons. has_required_keys entry)"
    by (rule conjunct2)
  then show ?thesis
    by (intro conjI ok prior foo bar)
qed

text \<open>
  C2 as it is stated, also for the entries carried over from a prior index, fails: a
  run in merge mode on an empty directory, with a prior index whose entry \<^verbatim>\<open>old\<close> has
  neither \<^verbatim>\<open>name\<close> nor \<^verbatim>\<open>blender\<close>, ends well and writes that entry again.
\<close>

theorem carried_over_entry_is_not_checked:
  "snd (snd (main join_url (example_args True) (with_index unchecked_index (addons_fs []))))
     = Inr ()
   \<and> json_files
       (fst (main join_url (example_args True) (with_index unchecked_index (addons_fs []))))
       ''index.json''
     = Some (Json_text
         (JObject
            [(''addons'', JObject [(''old'', JObject [(''author'', JString ''me'')])]),
             (''schema-version'', JInt 1)]))
   \<and> snd (parse_existing_index
            (fst (main join_url (example_args True) (with_index unchecked_index (addons_fs []))))
            ''index.json'')
     = Inr (PDict (fmap_of_list
         [(''old'', PDict (fmap_of_list [(''author'', PStr ''me'')]))]))
   \<and> \<not> has_required_keys (PDict (fmap_of_list [(''author'', PStr ''me'')]))"
  by code_simp

end
